theory Spec2Isabelle
  imports Complex_Main
begin

section \<open>JavaScript values used by \<open>App.jsx\<close>\<close>

text \<open>
  A JavaScript string is modelled as an Isabelle \<open>string\<close>: one \<open>char\<close> per UTF-16
  code unit, for the texts whose code units are all below 256. \<open>length\<close> is the
  string's \<open>.length\<close>.
\<close>

text \<open>The white space and line terminators that \<open>String.prototype.trim\<close> strips, in the
  range of \<open>char\<close>: TAB, LF, VT, FF, CR, SPACE and NO-BREAK SPACE.\<close>

definition is_white_space :: "char \<Rightarrow> bool" where
  "is_white_space c = (of_char c \<in> {9, 10, 11, 12, 13, 32, 160 :: nat})"

definition trim :: "string \<Rightarrow> string" where
  "trim s = rev (dropWhile is_white_space (rev (dropWhile is_white_space s)))"

text \<open>\<open>Array.prototype.join\<close> on an array of strings.\<close>

fun join :: "string \<Rightarrow> string list \<Rightarrow> string" where
  "join sep [] = []"
| "join sep [x] = x"
| "join sep (x # y # ys) = x @ sep @ join sep (y # ys)"

text \<open>The decimal digits of a non-negative integer (an array length, an index plus one),
  as a template literal renders it.\<close>

definition digit :: "nat \<Rightarrow> char" where
  "digit d = ''0123456789'' ! d"

fun nat_to_string :: "nat \<Rightarrow> string" where
  "nat_to_string n =
     (if n < 10 then [digit n] else nat_to_string (n div 10) @ [digit (n mod 10)])"

declare nat_to_string.simps [simp del]

section \<open>The analysis result\<close>

text \<open>
  The JSON body of the analyze call, with the properties the component reads. The numbers
  of the body are of an abstract type \<open>'n\<close>; a template literal renders one through the
  platform's number-to-string conversion. \<open>detail\<close> is the property read on a response
  that is not ok. A parts-of-speech category may be absent (\<open>None\<close>).
\<close>

record 'n text_stats =
  word_count :: 'n
  sentence_count :: 'n
  avg_sentence_length :: 'n
  avg_word_length :: 'n
  character_count :: 'n

record 'n readability =
  flesch_kincaid_grade :: 'n
  reading_level :: string
  description :: string

record tense_analysis =
  past :: "string list"
  present :: "string list"
  future :: "string list"

record 'n word_frequency_item =
  word :: string
  count :: 'n

record parts_of_speech =
  nouns :: "string list option"
  verbs :: "string list option"
  adjectives :: "string list option"
  adverbs :: "string list option"
  pronouns :: "string list option"
  prepositions :: "string list option"
  conjunctions :: "string list option"

record 'n analysis_result =
  text_stats :: "'n text_stats"
  readability :: "'n readability"
  tense_analysis :: tense_analysis
  passive_sentences :: "string list"
  word_frequency :: "'n word_frequency_item list"
  parts_of_speech :: parts_of_speech
  detail :: "string option"

section \<open>The component's state and its surroundings\<close>

text \<open>
  The five \<open>useState\<close> hooks of \<open>App\<close>, and what the handlers act on outside the
  component: the analyze calls issued and not yet settled (each with the text of its
  body), the clipboard, the pending \<open>setTimeout\<close> callbacks (each with the time it is
  due; every callback of the component is \<open>() => setCopiedCategory(null)\<close>), and the
  clock. The hook \<open>text\<close> is named \<open>text'\<close> here.
\<close>

record 'n app =
  text' :: string
  result :: "'n analysis_result option"
  loading :: bool
  error :: string
  copiedCategory :: "string option"
  in_flight :: "string list"
  clipboard :: "string option"
  timers :: "nat list"
  clock :: nat

definition initial :: "'n app" where
  "initial = \<lparr>text' = '''', result = None, loading = False, error = '''',
     copiedCategory = None, in_flight = [], clipboard = None, timers = [], clock = 0\<rparr>"

datatype js_error = TypeError

section \<open>The request life cycle\<close>

text \<open>\<open>handleAnalyze\<close> up to its \<open>await fetch(...)\<close>: the validation, the three state
  updates and the call.\<close>

definition handleAnalyze :: "'n app \<Rightarrow> 'n app" where
  "handleAnalyze s =
     (if trim (text' s) = '''' \<or> length (text' s) < 10
      then s\<lparr>error := ''Please enter at least 10 characters of text''\<rparr>
      else s\<lparr>loading := True, error := '''', result := None,
             in_flight := in_flight s @ [text' s]\<rparr>)"

text \<open>
  How an analyze call settles: \<open>fetch\<close> rejects with an error of the given message, or it
  resolves with a response, whose \<open>ok\<close> flag is the first argument and whose \<open>json()\<close>
  either rejects (\<open>Inl\<close>, the error's message) or gives the parsed body.
\<close>

datatype 'n fetch_outcome =
  Rejects string
| Resolves bool "string + 'n analysis_result"

text \<open>The \<open>try\<close> block after the call: \<open>Inl\<close> is the message of the error thrown,
  \<open>Inr\<close> the data passed to \<open>setResult\<close>.\<close>

definition try_block :: "'n fetch_outcome \<Rightarrow> string + 'n analysis_result" where
  "try_block out =
     (case out of
        Rejects m \<Rightarrow> Inl m
      | Resolves ok body \<Rightarrow>
          (case body of
             Inl m \<Rightarrow> Inl m
           | Inr data \<Rightarrow>
               if \<not> ok
               then Inl (case detail data of
                           Some d \<Rightarrow> if d \<noteq> '''' then d else ''Analysis failed''
                         | None \<Rightarrow> ''Analysis failed'')
               else Inr data))"

text \<open>The rest of \<open>handleAnalyze\<close>, run when its call settles: \<open>try\<close>, \<open>catch\<close>,
  \<open>finally\<close>.\<close>

definition handleAnalyze_settled :: "'n fetch_outcome \<Rightarrow> 'n app \<Rightarrow> 'n app" where
  "handleAnalyze_settled out s =
     (let s1 = (case try_block out of
                  Inr data \<Rightarrow> s\<lparr>result := Some data\<rparr>
                | Inl m \<Rightarrow> s\<lparr>error := (if m \<noteq> '''' then m else ''Failed to connect to server'')\<rparr>)
      in s1\<lparr>loading := False\<rparr>)"

definition handleClear :: "'n app \<Rightarrow> 'n app" where
  "handleClear s = s\<lparr>text' := '''', result := None, error := ''''\<rparr>"

text \<open>
  The request state of the specification, read off the hooks the way the markup does:
  \<open>loading ? ...\<close>, \<open>{error && ...}\<close>, \<open>{result && ...}\<close>, \<open>{!result && !error && ...}\<close>.
\<close>

datatype 'n request_state = Idle | Loading | Success "'n analysis_result" | Error string

definition request_state :: "'n app \<Rightarrow> 'n request_state" where
  "request_state s =
     (if loading s then Loading
      else if error s \<noteq> '''' then Error (error s)
      else case result s of Some r \<Rightarrow> Success r | None \<Rightarrow> Idle)"

section \<open>The Analyze button's disabled attribute, and the events of a session\<close>

text \<open>The button's \<open>disabled={loading || text.length < 10}\<close>: a disabled button
  dispatches no click, so \<open>onClick={handleAnalyze}\<close> runs only when it is enabled.\<close>

definition analyze_disabled :: "'n app \<Rightarrow> bool" where
  "analyze_disabled s = (loading s \<or> length (text' s) < 10)"

definition click_analyze :: "'n app \<Rightarrow> 'n app" where
  "click_analyze s = (if analyze_disabled s then s else handleAnalyze s)"

text \<open>The \<open>k\<close>-th call in flight settles: it leaves the calls in flight and the rest of
  its \<open>handleAnalyze\<close> runs.\<close>

definition settle :: "nat \<Rightarrow> 'n fetch_outcome \<Rightarrow> 'n app \<Rightarrow> 'n app" where
  "settle k out s =
     (if k < length (in_flight s)
      then handleAnalyze_settled out
             (s\<lparr>in_flight := take k (in_flight s) @ drop (Suc k) (in_flight s)\<rparr>)
      else s)"

text \<open>Time passes: the clock advances and every callback due by then has run. Each is
  \<open>() => setCopiedCategory(null)\<close>.\<close>

definition elapse :: "nat \<Rightarrow> 'n app \<Rightarrow> 'n app" where
  "elapse dt s =
     (let t = clock s + dt;
          due = filter (\<lambda>d. d \<le> t) (timers s);
          s1 = s\<lparr>clock := t, timers := filter (\<lambda>d. \<not> d \<le> t) (timers s)\<rparr>
      in if due = [] then s1 else s1\<lparr>copiedCategory := None\<rparr>)"

section \<open>The platform\<close>

text \<open>
  What the handlers take from outside the repository: the number-to-string conversion
  of a template literal, the string of \<open>new Date().toLocaleString()\<close> at the time of
  the export, and of jsPDF the page width and \<open>splitTextToSize\<close>, which wraps a text to
  a width under the document's current font size and style.
\<close>

record 'n platform =
  toString :: "'n \<Rightarrow> string"
  toLocaleString :: string
  getWidth :: real
  splitTextToSize :: "nat \<Rightarrow> bool \<Rightarrow> string \<Rightarrow> real \<Rightarrow> string list"

section \<open>Copying to the clipboard\<close>

text \<open>The second argument of \<open>handleCopyCategory\<close>: an array of words, or a string.\<close>

datatype words = Array "string list" | Str string

definition handleCopyCategory :: "string \<Rightarrow> words \<Rightarrow> 'n app \<Rightarrow> 'n app" where
  "handleCopyCategory category ws s =
     (let copyText = (case ws of Array xs \<Rightarrow> join '', '' xs | Str w \<Rightarrow> w)
      in s\<lparr>clipboard := Some copyText, copiedCategory := Some category,
            timers := timers s @ [clock s + 2000]\<rparr>)"

definition handleCopyStats :: "'n platform \<Rightarrow> 'n app \<Rightarrow> js_error + 'n app" where
  "handleCopyStats P s =
     (case result s of
        None \<Rightarrow> Inl TypeError
      | Some r \<Rightarrow>
          (let statsText =
                 ''Words: '' @ toString P (word_count (text_stats r)) @ [CHR 0x0A] @
                 ''Sentences: '' @ toString P (sentence_count (text_stats r)) @ [CHR 0x0A] @
                 ''Avg Words/Sentence: '' @ toString P (avg_sentence_length (text_stats r)) @ [CHR 0x0A] @
                 ''Avg Word Length: '' @ toString P (avg_word_length (text_stats r)) @ [CHR 0x0A] @
                 ''Characters: '' @ toString P (character_count (text_stats r))
           in Inr (s\<lparr>clipboard := Some statsText, copiedCategory := Some ''stats'',
                      timers := timers s @ [clock s + 2000]\<rparr>)))"

definition handleCopyReadability :: "'n platform \<Rightarrow> 'n app \<Rightarrow> js_error + 'n app" where
  "handleCopyReadability P s =
     (case result s of
        None \<Rightarrow> Inl TypeError
      | Some r \<Rightarrow>
          (let readText =
                 ''Flesch-Kincaid Grade: '' @ toString P (flesch_kincaid_grade (readability r)) @ [CHR 0x0A] @
                 ''Reading Level: '' @ reading_level (readability r) @ [CHR 0x0A] @
                 ''Description: '' @ description (readability r)
           in Inr (s\<lparr>clipboard := Some readText, copiedCategory := Some ''readability'',
                      timers := timers s @ [clock s + 2000]\<rparr>)))"

definition handleCopyPassive :: "'n app \<Rightarrow> js_error + 'n app" where
  "handleCopyPassive s =
     (case result s of
        None \<Rightarrow> Inl TypeError
      | Some r \<Rightarrow>
          (let passiveText =
                 (if length (passive_sentences r) > 0
                  then join [CHR 0x0A] (passive_sentences r)
                  else ''No passive voice sentences detected.'')
           in Inr (s\<lparr>clipboard := Some passiveText, copiedCategory := Some ''passive'',
                      timers := timers s @ [clock s + 2000]\<rparr>)))"

definition handleCopyWordFreq :: "'n platform \<Rightarrow> 'n app \<Rightarrow> js_error + 'n app" where
  "handleCopyWordFreq P s =
     (case result s of
        None \<Rightarrow> Inl TypeError
      | Some r \<Rightarrow>
          (let freqText =
                 join [CHR 0x0A]
                   (map (\<lambda>item. word item @ '': '' @ toString P (count item)) (word_frequency r))
           in Inr (s\<lparr>clipboard := Some freqText, copiedCategory := Some ''wordfreq'',
                      timers := timers s @ [clock s + 2000]\<rparr>)))"

text \<open>The copy button of the future tense card: the markup renders it only under
  \<open>result.tense_analysis.future.length > 0\<close>; its \<open>onClick\<close> is the handler returned.\<close>

definition future_copy_button :: "'n analysis_result \<Rightarrow> ('n app \<Rightarrow> 'n app) option" where
  "future_copy_button r =
     (if length (future (tense_analysis r)) > 0
      then Some (handleCopyCategory ''future'' (Array (future (tense_analysis r))))
      else None)"

text \<open>The copy controls of the result view, and the handler each click runs.\<close>

datatype copy_click =
  CopyCategory string words
| CopyStats
| CopyReadability
| CopyPassive
| CopyWordFreq

definition copy_category :: "copy_click \<Rightarrow> string" where
  "copy_category c =
     (case c of
        CopyCategory category ws \<Rightarrow> category
      | CopyStats \<Rightarrow> ''stats''
      | CopyReadability \<Rightarrow> ''readability''
      | CopyPassive \<Rightarrow> ''passive''
      | CopyWordFreq \<Rightarrow> ''wordfreq'')"

definition click_copy :: "'n platform \<Rightarrow> copy_click \<Rightarrow> 'n app \<Rightarrow> js_error + 'n app" where
  "click_copy P c s =
     (case c of
        CopyCategory category ws \<Rightarrow> Inr (handleCopyCategory category ws s)
      | CopyStats \<Rightarrow> handleCopyStats P s
      | CopyReadability \<Rightarrow> handleCopyReadability P s
      | CopyPassive \<Rightarrow> handleCopyPassive s
      | CopyWordFreq \<Rightarrow> handleCopyWordFreq P s)"

text \<open>The events of a session. A click handler that throws leaves the state as it was.\<close>

datatype 'n event =
  Change string
| ClickClear
| ClickAnalyze
| ClickCopy copy_click
| Settles nat "'n fetch_outcome"
| Elapses nat

definition step :: "'n platform \<Rightarrow> 'n event \<Rightarrow> 'n app \<Rightarrow> 'n app" where
  "step P e s =
     (case e of
        Change v \<Rightarrow> s\<lparr>text' := v\<rparr>
      | ClickClear \<Rightarrow> handleClear s
      | ClickAnalyze \<Rightarrow> click_analyze s
      | ClickCopy c \<Rightarrow> (case click_copy P c s of Inl e \<Rightarrow> s | Inr s1 \<Rightarrow> s1)
      | Settles k out \<Rightarrow> settle k out s
      | Elapses dt \<Rightarrow> elapse dt s)"

definition run :: "'n platform \<Rightarrow> 'n event list \<Rightarrow> 'n app \<Rightarrow> 'n app" where
  "run P es s = fold (step P) es s"

section \<open>The jsPDF document\<close>

text \<open>
  The document is what was written to it, in order: a line of text at a position, in the
  font size and style current at the call (the font is always helvetica; the style is
  bold or normal), or a page break. \<open>doc.text\<close> writes on the last page.
\<close>

datatype op = Text nat bool string nat nat | AddPage

record pdf =
  activeFontSize :: nat
  activeBold :: bool
  content :: "op list"
  saved :: "string option"

definition new_jsPDF :: pdf where
  "new_jsPDF = \<lparr>activeFontSize = 16, activeBold = False, content = [], saved = None\<rparr>"

definition setFontSize :: "nat \<Rightarrow> pdf \<Rightarrow> pdf" where
  "setFontSize n d = d\<lparr>activeFontSize := n\<rparr>"

definition setFont :: "bool \<Rightarrow> pdf \<Rightarrow> pdf" where
  "setFont b d = d\<lparr>activeBold := b\<rparr>"

definition doc_text :: "string \<Rightarrow> nat \<Rightarrow> nat \<Rightarrow> pdf \<Rightarrow> pdf" where
  "doc_text line x y d = d\<lparr>content := content d @ [Text (activeFontSize d) (activeBold d) line x y]\<rparr>"

definition addPage :: "pdf \<Rightarrow> pdf" where
  "addPage d = d\<lparr>content := content d @ [AddPage]\<rparr>"

definition save :: "string \<Rightarrow> pdf \<Rightarrow> pdf" where
  "save name d = d\<lparr>saved := Some name\<rparr>"

section \<open>\<open>handleDownloadPDF\<close>\<close>

text \<open>The handler's local state: the document and the cursor \<open>yPos\<close>, which the closures
  \<open>addText\<close> and \<open>addSection\<close> update.\<close>

record layout =
  doc :: pdf
  yPos :: nat

definition lineHeight :: nat where
  "lineHeight = 7"

definition margin :: nat where
  "margin = 20"

definition maxWidth :: "'n platform \<Rightarrow> real" where
  "maxWidth P = getWidth P - real margin * 2"

text \<open>The body of \<open>lines.forEach\<close> in \<open>addText\<close>.\<close>

definition addText_line :: "string \<Rightarrow> layout \<Rightarrow> layout" where
  "addText_line line l =
     (let l1 = (if yPos l > 270 then l\<lparr>doc := addPage (doc l), yPos := 20\<rparr> else l)
      in l1\<lparr>doc := doc_text line margin (yPos l1) (doc l1), yPos := yPos l1 + lineHeight\<rparr>)"

definition addText :: "'n platform \<Rightarrow> string \<Rightarrow> nat \<Rightarrow> bool \<Rightarrow> layout \<Rightarrow> layout" where
  "addText P txt fontSize isBold l =
     (let d = setFont isBold (setFontSize fontSize (doc l));
          lines = splitTextToSize P (activeFontSize d) (activeBold d) txt (maxWidth P)
      in fold addText_line lines (l\<lparr>doc := d\<rparr>))"

definition addSection :: "'n platform \<Rightarrow> string \<Rightarrow> layout \<Rightarrow> layout" where
  "addSection P title l =
     (let l1 = (if yPos l > 250 then l\<lparr>doc := addPage (doc l), yPos := 20\<rparr> else l);
          l2 = l1\<lparr>yPos := yPos l1 + 5\<rparr>;
          l3 = addText P title 14 True l2
      in l3\<lparr>yPos := yPos l3 + 2\<rparr>)"

text \<open>\<open>x?.length > 0\<close> on a category that may be absent.\<close>

definition has_words :: "string list option \<Rightarrow> bool" where
  "has_words x = (case x of None \<Rightarrow> False | Some ws \<Rightarrow> length ws > 0)"

text \<open>The line of a parts-of-speech category that is there:
  \<open>`Nouns (${nouns.length}): ${nouns.join(', ')}`\<close>.\<close>

definition pos_line :: "string \<Rightarrow> string list \<Rightarrow> string" where
  "pos_line label ws = label @ '' ('' @ nat_to_string (length ws) @ ''): '' @ join '', '' ws"

text \<open>The handler's blocks, one per comment of the source. A statement under a
  condition, \<open>if (c) { addText(...) }\<close>, is \<open>addText\<close> or the identity.\<close>

definition pdf_title :: "layout \<Rightarrow> layout" where
  "pdf_title l =
     (let d = doc_text ''Text Analysis Report'' margin (yPos l)
                (setFont True (setFontSize 20 (doc l)))
      in l\<lparr>doc := d, yPos := yPos l + 15\<rparr>)"

definition pdf_date :: "'n platform \<Rightarrow> layout \<Rightarrow> layout" where
  "pdf_date P l =
     (let d = doc_text (''Generated: '' @ toLocaleString P) margin (yPos l)
                (setFont False (setFontSize 10 (doc l)))
      in l\<lparr>doc := d, yPos := yPos l + 15\<rparr>)"

definition pdf_input_text :: "'n platform \<Rightarrow> string \<Rightarrow> layout \<Rightarrow> layout" where
  "pdf_input_text P txt l = addText P txt 11 False (addSection P ''INPUT TEXT'' l)"

definition pdf_text_statistics :: "'n platform \<Rightarrow> 'n analysis_result \<Rightarrow> layout \<Rightarrow> layout" where
  "pdf_text_statistics P r l =
     (let l1 = addSection P ''TEXT STATISTICS'' l;
          l2 = addText P (''Words: '' @ toString P (word_count (text_stats r))) 12 False l1;
          l3 = addText P (''Sentences: '' @ toString P (sentence_count (text_stats r))) 12 False l2;
          l4 = addText P (''Average Words per Sentence: '' @
                 toString P (avg_sentence_length (text_stats r))) 12 False l3;
          l5 = addText P (''Average Word Length: '' @
                 toString P (avg_word_length (text_stats r))) 12 False l4
      in addText P (''Characters: '' @ toString P (character_count (text_stats r))) 12 False l5)"

definition pdf_readability :: "'n platform \<Rightarrow> 'n analysis_result \<Rightarrow> layout \<Rightarrow> layout" where
  "pdf_readability P r l =
     (let l1 = addSection P ''READABILITY SCORE'' l;
          l2 = addText P (''Flesch-Kincaid Grade Level: '' @
                 toString P (flesch_kincaid_grade (readability r))) 12 False l1;
          l3 = addText P (''Reading Level: '' @ reading_level (readability r)) 12 False l2
      in addText P (''Description: '' @ description (readability r)) 12 False l3)"

definition pdf_tense_analysis :: "'n platform \<Rightarrow> 'n analysis_result \<Rightarrow> layout \<Rightarrow> layout" where
  "pdf_tense_analysis P r l =
     (let l1 = addSection P ''TENSE ANALYSIS'' l;
          l2 = addText P (''Past Tense: '' @
                 (if length (past (tense_analysis r)) > 0
                  then join '', '' (past (tense_analysis r)) else ''None'')) 12 False l1;
          l3 = addText P (''Present Tense: '' @
                 (if length (present (tense_analysis r)) > 0
                  then join '', '' (present (tense_analysis r)) else ''None'')) 12 False l2
      in addText P (''Future Tense: '' @
           (if length (future (tense_analysis r)) > 0
            then join '', '' (future (tense_analysis r)) else ''None'')) 12 False l3)"

definition pdf_passive_voice :: "'n platform \<Rightarrow> 'n analysis_result \<Rightarrow> layout \<Rightarrow> layout" where
  "pdf_passive_voice P r l =
     (let l1 = addSection P ''PASSIVE VOICE DETECTION'' l
      in if length (passive_sentences r) > 0
         then
           (let l2 = addText P (''Found '' @ nat_to_string (length (passive_sentences r)) @
                       '' sentence(s) with passive voice:'') 12 False l1
            in fold (\<lambda>(i, sentence). addText P (nat_to_string (i + 1) @ ''. '' @ sentence) 12 False)
                 (enumerate 0 (passive_sentences r)) l2)
         else addText P ''No passive voice sentences detected.'' 12 False l1)"

definition pdf_word_frequency :: "'n platform \<Rightarrow> 'n analysis_result \<Rightarrow> layout \<Rightarrow> layout" where
  "pdf_word_frequency P r l =
     (let l1 = addSection P ''WORD FREQUENCY (TOP 10)'' l
      in fold (\<lambda>(i, item). addText P (nat_to_string (i + 1) @ ''. '' @ word item @ '': '' @
                 toString P (count item)) 12 False)
           (enumerate 0 (word_frequency r)) l1)"

definition pdf_parts_of_speech :: "'n platform \<Rightarrow> 'n analysis_result \<Rightarrow> layout \<Rightarrow> layout" where
  "pdf_parts_of_speech P r l =
     (let pos = parts_of_speech r;
          l1 = addSection P ''PARTS OF SPEECH'' l;
          l2 = (if has_words (nouns pos)
                then addText P (pos_line ''Nouns'' (the (nouns pos))) 12 False else id) l1;
          l3 = (if has_words (verbs pos)
                then addText P (pos_line ''Verbs'' (the (verbs pos))) 12 False else id) l2;
          l4 = (if has_words (adjectives pos)
                then addText P (pos_line ''Adjectives'' (the (adjectives pos))) 12 False else id) l3;
          l5 = (if has_words (adverbs pos)
                then addText P (pos_line ''Adverbs'' (the (adverbs pos))) 12 False else id) l4;
          l6 = (if has_words (pronouns pos)
                then addText P (pos_line ''Pronouns'' (the (pronouns pos))) 12 False else id) l5;
          l7 = (if has_words (prepositions pos)
                then addText P (pos_line ''Prepositions'' (the (prepositions pos))) 12 False
                else id) l6
      in (if has_words (conjunctions pos)
          then addText P (pos_line ''Conjunctions'' (the (conjunctions pos))) 12 False else id) l7)"

text \<open>
  The handler. With no result stored, \<open>result.text_stats\<close> throws a TypeError before
  anything is saved; the markup renders the download button only under \<open>result\<close>.
\<close>

definition handleDownloadPDF :: "'n platform \<Rightarrow> 'n app \<Rightarrow> js_error + pdf" where
  "handleDownloadPDF P s =
     (let l0 = \<lparr>doc = new_jsPDF, yPos = 20\<rparr>;
          l1 = pdf_input_text P (text' s) (pdf_date P (pdf_title l0))
      in case result s of
           None \<Rightarrow> Inl TypeError
         | Some r \<Rightarrow>
             (let l2 = pdf_text_statistics P r l1;
                  l3 = pdf_readability P r l2;
                  l4 = pdf_tense_analysis P r l3;
                  l5 = pdf_passive_voice P r l4;
                  l6 = pdf_word_frequency P r l5;
                  l7 = pdf_parts_of_speech P r l6
              in Inr (save ''text-analysis-report.pdf'' (doc l7))))"

section \<open>Reading a document\<close>

text \<open>The lines of a document in order, each with its font size and style, page breaks
  and positions left out.\<close>

fun drawn :: "op list \<Rightarrow> (nat \<times> bool \<times> string) list" where
  "drawn [] = []"
| "drawn (Text fs b line x y # ops) = (fs, b, line) # drawn ops"
| "drawn (AddPage # ops) = drawn ops"

section \<open>An example session\<close>

text \<open>A result and a platform for the examples: the numbers are naturals, rendered in
  decimal, and no line is long enough to be wrapped.\<close>

definition example_result :: "nat analysis_result" where
  "example_result =
     \<lparr>text_stats = \<lparr>word_count = 7, sentence_count = 1, avg_sentence_length = 7,
                     avg_word_length = 3, character_count = 30\<rparr>,
      readability = \<lparr>flesch_kincaid_grade = 2, reading_level = ''Elementary'',
                      description = ''Very easy to read''\<rparr>,
      tense_analysis = \<lparr>past = [''was'', ''chased''], present = [], future = []\<rparr>,
      passive_sentences = [''The cat was chased by the dog.''],
      word_frequency = [\<lparr>word = ''the'', count = 2\<rparr>, \<lparr>word = ''cat'', count = 1\<rparr>],
      parts_of_speech = \<lparr>nouns = Some [''cat'', ''dog''], verbs = Some [''chased''],
                          adjectives = Some [], adverbs = None, pronouns = None,
                          prepositions = Some [''by''], conjunctions = None\<rparr>,
      detail = None\<rparr>"

definition example_platform :: "nat platform" where
  "example_platform =
     \<lparr>toString = nat_to_string, toLocaleString = ''11/3/2026, 9:30:00 AM'', getWidth = 210,
      splitTextToSize = (\<lambda>fontSize isBold txt width. [txt])\<rparr>"

definition example_app :: "nat app" where
  "example_app = initial\<lparr>text' := ''The cat was chased by the dog.'', result := Some example_result\<rparr>"

section \<open>Invariants\<close>

text \<open>What the disabled attribute of the Analyze button keeps true: a call is in flight exactly while
  \<open>loading\<close> holds, there is at most one, and no result is stored meanwhile.\<close>

definition one_call :: "'n app \<Rightarrow> bool" where
  "one_call s = (if loading s then length (in_flight s) = 1 \<and> result s = None
              else in_flight s = [])"


section \<open>The report as a list of sections\<close>

text \<open>
  The report the specification describes: a header, then titled sections, each a title
  and the texts of its body with their font sizes. It is independent of the cursor and
  of page breaks.
\<close>

definition section_titles :: "string list" where
  "section_titles =
     [''INPUT TEXT'', ''TEXT STATISTICS'', ''READABILITY SCORE'', ''TENSE ANALYSIS'',
      ''PASSIVE VOICE DETECTION'', ''WORD FREQUENCY (TOP 10)'', ''PARTS OF SPEECH'']"

text \<open>The lines a text is wrapped to, each with the font it is written in.\<close>

definition wrapped :: "'n platform \<Rightarrow> nat \<Rightarrow> bool \<Rightarrow> string \<Rightarrow> (nat \<times> bool \<times> string) list" where
  "wrapped P fontSize isBold txt =
     map (\<lambda>line. (fontSize, isBold, line)) (splitTextToSize P fontSize isBold txt (maxWidth P))"

definition header_lines :: "'n platform \<Rightarrow> (nat \<times> bool \<times> string) list" where
  "header_lines P =
     [(20, True, ''Text Analysis Report''), (10, False, ''Generated: '' @ toLocaleString P)]"

definition tense_text :: "string list \<Rightarrow> string" where
  "tense_text ws = (if ws = [] then ''None'' else join '', '' ws)"

definition numbered :: "string list \<Rightarrow> string list" where
  "numbered xs = map (\<lambda>(i, x). nat_to_string (i + 1) @ ''. '' @ x) (enumerate 0 xs)"

definition passive_body :: "string list \<Rightarrow> string list" where
  "passive_body sentences =
     (if sentences = [] then [''No passive voice sentences detected.'']
      else (''Found '' @ nat_to_string (length sentences) @ '' sentence(s) with passive voice:'')
           # numbered sentences)"

text \<open>The parts-of-speech categories in their fixed order, an absent one as empty.\<close>

definition categories :: "parts_of_speech \<Rightarrow> (string \<times> string list) list" where
  "categories pos =
     map (\<lambda>(label, ws). (label, case ws of None \<Rightarrow> [] | Some xs \<Rightarrow> xs))
       [(''Nouns'', nouns pos), (''Verbs'', verbs pos), (''Adjectives'', adjectives pos),
        (''Adverbs'', adverbs pos), (''Pronouns'', pronouns pos),
        (''Prepositions'', prepositions pos), (''Conjunctions'', conjunctions pos)]"

definition parts_of_speech_body :: "parts_of_speech \<Rightarrow> string list" where
  "parts_of_speech_body pos =
     map (\<lambda>(label, ws). pos_line label ws) (filter (\<lambda>(label, ws). ws \<noteq> []) (categories pos))"

definition report_sections ::
  "'n platform \<Rightarrow> string \<Rightarrow> 'n analysis_result \<Rightarrow> (string \<times> (nat \<times> string) list) list" where
  "report_sections P txt r =
     [(''INPUT TEXT'', [(11, txt)]),
      (''TEXT STATISTICS'',
         map (Pair 12)
           [''Words: '' @ toString P (word_count (text_stats r)),
            ''Sentences: '' @ toString P (sentence_count (text_stats r)),
            ''Average Words per Sentence: '' @ toString P (avg_sentence_length (text_stats r)),
            ''Average Word Length: '' @ toString P (avg_word_length (text_stats r)),
            ''Characters: '' @ toString P (character_count (text_stats r))]),
      (''READABILITY SCORE'',
         map (Pair 12)
           [''Flesch-Kincaid Grade Level: '' @ toString P (flesch_kincaid_grade (readability r)),
            ''Reading Level: '' @ reading_level (readability r),
            ''Description: '' @ description (readability r)]),
      (''TENSE ANALYSIS'',
         map (Pair 12)
           [''Past Tense: '' @ tense_text (past (tense_analysis r)),
            ''Present Tense: '' @ tense_text (present (tense_analysis r)),
            ''Future Tense: '' @ tense_text (future (tense_analysis r))]),
      (''PASSIVE VOICE DETECTION'', map (Pair 12) (passive_body (passive_sentences r))),
      (''WORD FREQUENCY (TOP 10)'',
         map (Pair 12)
           (numbered (map (\<lambda>item. word item @ '': '' @ toString P (count item))
              (word_frequency r)))),
      (''PARTS OF SPEECH'', map (Pair 12) (parts_of_speech_body (parts_of_speech r)))]"

text \<open>The lines of a section: its title in 14 point bold, then each text of its body,
  wrapped on its own, in normal style.\<close>

definition section_lines ::
  "'n platform \<Rightarrow> string \<times> (nat \<times> string) list \<Rightarrow> (nat \<times> bool \<times> string) list" where
  "section_lines P sec =
     wrapped P 14 True (fst sec) @
     concat (map (\<lambda>(fontSize, txt). wrapped P fontSize False txt) (snd sec))"

definition report_lines ::
  "'n platform \<Rightarrow> string \<Rightarrow> 'n analysis_result \<Rightarrow> (nat \<times> bool \<times> string) list" where
  "report_lines P txt r = header_lines P @ concat (map (section_lines P) (report_sections P txt r))"

text \<open>The body lines under a title of a document: the lines in normal style that follow
  the title's line, up to the next line in bold.\<close>

definition section_body :: "string \<Rightarrow> (nat \<times> bool \<times> string) list \<Rightarrow> string list" where
  "section_body title ls =
     map (\<lambda>(fontSize, isBold, line). line)
       (takeWhile (\<lambda>(fontSize, isBold, line). \<not> isBold)
          (drop 1 (dropWhile (\<lambda>x. x \<noteq> (14, True, title)) ls)))"

text \<open>No section title is wrapped.\<close>

definition titles_unwrapped :: "'n platform \<Rightarrow> bool" where
  "titles_unwrapped P =
     (\<forall>title \<in> set section_titles. splitTextToSize P 14 True title (maxWidth P) = [title])"

text \<open>Every section title takes one line.\<close>

definition titles_on_one_line :: "'n platform \<Rightarrow> bool" where
  "titles_on_one_line P =
     (\<forall>title \<in> set section_titles.
        length (splitTextToSize P 14 True title (maxWidth P)) = 1)"

text \<open>The lines of a document with the page each is on, pages counted from \<open>p\<close>.\<close>

fun paged :: "nat \<Rightarrow> op list \<Rightarrow> (nat \<times> bool \<times> string) list" where
  "paged p [] = []"
| "paged p (Text fs b line x y # ops) = (p, b, line) # paged p ops"
| "paged p (AddPage # ops) = paged (Suc p) ops"

text \<open>No title is split from its body: a line in normal style that comes right after a
  line in bold is on the same page.\<close>

fun titles_kept :: "(nat \<times> bool \<times> string) list \<Rightarrow> bool" where
  "titles_kept ((p, b, line) # (q, c, line') # ls) =
     ((b \<and> \<not> c \<longrightarrow> p = q) \<and> titles_kept ((q, c, line') # ls))"
| "titles_kept ls = True"

text \<open>The number of page breaks of a document; its last page is this number plus one.\<close>

definition page_breaks :: "op list \<Rightarrow> nat" where
  "page_breaks ops = length (filter (\<lambda>x. x = AddPage) ops)"

text \<open>
  What holds of the layout between two statements of the handler: no title so far is
  split from its body, and when the last line written is a title, it is on the last page
  and the cursor is within the page, so that the next line follows it there.
\<close>

definition kept :: "layout \<Rightarrow> bool" where
  "kept l =
     (let ls = paged 1 (content (doc l))
      in titles_kept ls \<and>
         (ls \<noteq> [] \<and> fst (snd (last ls)) \<longrightarrow>
            yPos l \<le> 270 \<and> fst (last ls) = 1 + page_breaks (content (doc l))))"

section \<open>Validation in \<open>handleAnalyze\<close>\<close>

text \<open>
  A text of ten characters, one letter and nine spaces: its trimmed length is 1, yet
  \<open>handleAnalyze\<close> takes it for valid, enters the loading state and issues the call. The
  guard compares the untrimmed length with 10.
\<close>

theorem handleAnalyze_padded_text_counterexample:
  "length (trim ''a         '') < 10 \<and>
   loading (handleAnalyze ((initial :: nat app)\<lparr>text' := ''a         ''\<rparr>)) \<and>
   in_flight (handleAnalyze ((initial :: nat app)\<lparr>text' := ''a         ''\<rparr>)) = [''a         ''] \<and>
   error (handleAnalyze ((initial :: nat app)\<lparr>text' := ''a         ''\<rparr>)) = '''' \<and>
   request_state (handleAnalyze ((initial :: nat app)\<lparr>text' := ''a         ''\<rparr>)) = Loading"
  by (simp add: handleAnalyze_def initial_def trim_def is_white_space_def request_state_def)

text \<open>
  C1, as the code has it. When the text is blank after trimming or its untrimmed length
  is below 10, \<open>handleAnalyze\<close> only sets the validation message: no call is issued,
  \<open>loading\<close> keeps its value, and the request state is \<open>Error\<close> unless a call was already
  loading. These are the only texts for which no call is issued.
\<close>

theorem handleAnalyze_validation:
  "(trim (text' s) = '''' \<or> length (text' s) < 10 \<longrightarrow>
      handleAnalyze s = s\<lparr>error := ''Please enter at least 10 characters of text''\<rparr> \<and>
      in_flight (handleAnalyze s) = in_flight s \<and>
      loading (handleAnalyze s) = loading s \<and>
      request_state (handleAnalyze s) =
        (if loading s then Loading else Error ''Please enter at least 10 characters of text'')) \<and>
   (in_flight (handleAnalyze s) = in_flight s \<longleftrightarrow>
      trim (text' s) = '''' \<or> length (text' s) < 10)"
  by (auto simp add: handleAnalyze_def request_state_def)

theorem handleAnalyze_validation_witness:
  "length ''too short'' < 10 \<and>
   in_flight (handleAnalyze ((initial :: nat app)\<lparr>text' := ''too short''\<rparr>)) = [] \<and>
   request_state (handleAnalyze ((initial :: nat app)\<lparr>text' := ''too short''\<rparr>)) =
     Error ''Please enter at least 10 characters of text''"
  using handleAnalyze_validation [of "(initial :: nat app)\<lparr>text' := ''too short''\<rparr>"]
  by (simp add: initial_def request_state_def)

section \<open>At most one call in flight\<close>

lemma click_copy_frame:
  "click_copy P c s = Inr s1 \<Longrightarrow>
     loading s1 = loading s \<and> in_flight s1 = in_flight s \<and> result s1 = result s"
  by (auto simp add: click_copy_def handleCopyCategory_def handleCopyStats_def
        handleCopyReadability_def handleCopyPassive_def handleCopyWordFreq_def Let_def
      split: copy_click.splits option.splits)

lemma one_call_step: "one_call s \<Longrightarrow> one_call (step P e s)"
proof (cases e)
  case (Change v)
  assume "one_call s" then show ?thesis using Change by (simp add: step_def one_call_def)
next
  case ClickClear
  assume "one_call s" then show ?thesis using ClickClear
    by (simp add: step_def one_call_def handleClear_def)
next
  case ClickAnalyze
  assume "one_call s" then show ?thesis using ClickAnalyze
    by (simp add: step_def one_call_def click_analyze_def analyze_disabled_def handleAnalyze_def)
next
  case (ClickCopy c)
  assume g: "one_call s"
  show ?thesis
  proof (cases "click_copy P c s")
    case (Inl e')
    then show ?thesis using g ClickCopy by (simp add: step_def)
  next
    case (Inr s1)
    from click_copy_frame [OF Inr] g show ?thesis using ClickCopy Inr
      by (simp add: step_def one_call_def)
  qed
next
  case (Settles k out)
  assume g: "one_call s"
  show ?thesis
  proof (cases "k < length (in_flight s)")
    case True
    with g have l: "loading s" "length (in_flight s) = 1" "result s = None" "k = 0"
      by (auto simp add: one_call_def split: if_splits)
    then show ?thesis using Settles
      by (auto simp add: step_def settle_def one_call_def handleAnalyze_settled_def Let_def
            split: sum.splits)
  next
    case False
    then show ?thesis using g Settles by (simp add: step_def settle_def)
  qed
next
  case (Elapses dt)
  assume "one_call s" then show ?thesis using Elapses
    by (simp add: step_def one_call_def elapse_def Let_def)
qed

lemma one_call_run: "one_call s \<Longrightarrow> one_call (run P es s)"
  unfolding run_def by (induction es arbitrary: s) (simp_all add: one_call_step)

lemma one_call_initial: "one_call initial"
  by (simp add: one_call_def initial_def)

text \<open>
  \<open>handleAnalyze\<close> does not read \<open>loading\<close>: run a second time while the first call is
  loading, it issues a second call.
\<close>

theorem handleAnalyze_while_loading_counterexample:
  "loading (handleAnalyze ((initial :: nat app)\<lparr>text' := ''The cat sat.''\<rparr>)) \<and>
   in_flight (handleAnalyze (handleAnalyze ((initial :: nat app)\<lparr>text' := ''The cat sat.''\<rparr>))) =
     [''The cat sat.'', ''The cat sat.'']"
  by (simp add: handleAnalyze_def initial_def trim_def is_white_space_def)

text \<open>
  C2, as the code has it. The bound rests on the markup alone: whatever the events of a
  session, with every click on Analyze passing the button's \<open>disabled\<close> attribute, at
  most one call is in flight, and a click while loading changes nothing. The handler
  itself issues a call for every text that passes its validation, whatever \<open>loading\<close> is.
\<close>

theorem at_most_one_call_in_flight:
  "length (in_flight (run P es initial)) \<le> 1 \<and>
   (loading s \<longrightarrow> click_analyze s = s) \<and>
   (trim (text' s) \<noteq> '''' \<and> 10 \<le> length (text' s) \<longrightarrow>
      in_flight (handleAnalyze s) = in_flight s @ [text' s])"
proof -
  have "one_call (run P es initial)"
    by (rule one_call_run [OF one_call_initial])
  then have "length (in_flight (run P es initial)) \<le> 1"
    by (simp add: one_call_def split: if_splits)
  then show ?thesis
    by (simp add: click_analyze_def analyze_disabled_def handleAnalyze_def)
qed

theorem at_most_one_call_in_flight_witness:
  "length (in_flight (run example_platform
      [Change ''The cat sat.'', ClickAnalyze, ClickAnalyze, ClickAnalyze] initial)) \<le> 1 \<and>
   loading (click_analyze ((initial :: nat app)\<lparr>text' := ''The cat sat.''\<rparr>)) \<and>
   click_analyze (click_analyze ((initial :: nat app)\<lparr>text' := ''The cat sat.''\<rparr>)) =
     click_analyze ((initial :: nat app)\<lparr>text' := ''The cat sat.''\<rparr>) \<and>
   in_flight (handleAnalyze ((initial :: nat app)\<lparr>text' := ''The cat sat.''\<rparr>)) = [''The cat sat.'']"
proof -
  have l: "loading (click_analyze ((initial :: nat app)\<lparr>text' := ''The cat sat.''\<rparr>))"
    by (simp add: click_analyze_def analyze_disabled_def handleAnalyze_def initial_def
          trim_def is_white_space_def)
  have v: "trim (text' ((initial :: nat app)\<lparr>text' := ''The cat sat.''\<rparr>)) \<noteq> '''' \<and>
           10 \<le> length (text' ((initial :: nat app)\<lparr>text' := ''The cat sat.''\<rparr>))"
    by (simp add: trim_def is_white_space_def)
  from at_most_one_call_in_flight
    [of example_platform "[Change ''The cat sat.'', ClickAnalyze, ClickAnalyze, ClickAnalyze]"
        "click_analyze ((initial :: nat app)\<lparr>text' := ''The cat sat.''\<rparr>)"] l
  have a: "length (in_flight (run example_platform
      [Change ''The cat sat.'', ClickAnalyze, ClickAnalyze, ClickAnalyze] initial)) \<le> 1"
    and b: "click_analyze (click_analyze ((initial :: nat app)\<lparr>text' := ''The cat sat.''\<rparr>)) =
     click_analyze ((initial :: nat app)\<lparr>text' := ''The cat sat.''\<rparr>)"
    by simp_all
  from at_most_one_call_in_flight
    [of example_platform "[]" "(initial :: nat app)\<lparr>text' := ''The cat sat.''\<rparr>"] v
  have c: "in_flight (handleAnalyze ((initial :: nat app)\<lparr>text' := ''The cat sat.''\<rparr>)) = [''The cat sat.'']"
    by (simp add: initial_def)
  from a b c l show ?thesis by simp
qed

section \<open>\<open>handleClear\<close>\<close>

text \<open>
  Clearing while a call is loading: the hooks for the text, the result and the error are
  reset, but \<open>loading\<close> is not, so the request state is still \<open>Loading\<close>.
\<close>

theorem handleClear_while_loading_counterexample:
  "request_state (handleAnalyze ((initial :: nat app)\<lparr>text' := ''The cat sat.''\<rparr>)) = Loading \<and>
   loading (handleClear (handleAnalyze ((initial :: nat app)\<lparr>text' := ''The cat sat.''\<rparr>))) \<and>
   in_flight (handleClear (handleAnalyze ((initial :: nat app)\<lparr>text' := ''The cat sat.''\<rparr>))) =
     [''The cat sat.''] \<and>
   request_state (handleClear (handleAnalyze ((initial :: nat app)\<lparr>text' := ''The cat sat.''\<rparr>))) = Loading \<and>
   request_state (handleClear (handleAnalyze ((initial :: nat app)\<lparr>text' := ''The cat sat.''\<rparr>))) \<noteq> Idle"
  by (simp add: handleAnalyze_def handleClear_def initial_def trim_def is_white_space_def
        request_state_def)

text \<open>
  C4, as the code has it. From every state \<open>handleClear\<close> empties the text, the result
  and the error message and leaves \<open>loading\<close> and the calls in flight as they are: the
  request state afterwards is \<open>Idle\<close> when no call was loading, and \<open>Loading\<close> otherwise.
\<close>

theorem handleClear_resets:
  "text' (handleClear s) = '''' \<and> result (handleClear s) = None \<and> error (handleClear s) = '''' \<and>
   loading (handleClear s) = loading s \<and> in_flight (handleClear s) = in_flight s \<and>
   request_state (handleClear s) = (if loading s then Loading else Idle)"
  by (simp add: handleClear_def request_state_def)

section \<open>The copied indicator and its timers\<close>

lemma click_copy_effect:
  "result s = Some r \<Longrightarrow>
   \<exists>s1. click_copy P c s = Inr s1 \<and> copiedCategory s1 = Some (copy_category c) \<and>
        timers s1 = timers s @ [clock s + 2000] \<and> clock s1 = clock s \<and> result s1 = result s"
  by (cases c)
    (simp_all add: click_copy_def copy_category_def handleCopyCategory_def handleCopyStats_def
        handleCopyReadability_def handleCopyPassive_def handleCopyWordFreq_def Let_def)

lemma step_copy:
  assumes "result s = Some r"
  shows "copiedCategory (step P (ClickCopy c) s) = Some (copy_category c) \<and>
         timers (step P (ClickCopy c) s) = timers s @ [clock s + 2000] \<and>
         clock (step P (ClickCopy c) s) = clock s \<and>
         result (step P (ClickCopy c) s) = result s"
proof -
  from click_copy_effect [OF assms, of P c] obtain s1 where
    "click_copy P c s = Inr s1" "copiedCategory s1 = Some (copy_category c)"
    "timers s1 = timers s @ [clock s + 2000]" "clock s1 = clock s" "result s1 = result s"
    by blast
  then show ?thesis by (simp add: step_def)
qed

lemma click_copy_timers:
  "click_copy P c s = Inr s1 \<Longrightarrow> set (timers s) \<subseteq> set (timers s1) \<and> clock s1 = clock s"
  by (auto simp add: click_copy_def handleCopyCategory_def handleCopyStats_def
        handleCopyReadability_def handleCopyPassive_def handleCopyWordFreq_def Let_def
      split: copy_click.splits option.splits)

lemma clock_step: "clock s \<le> clock (step P e s)"
proof (cases e)
  case (ClickCopy c)
  then show ?thesis
    using click_copy_timers [of P c s]
    by (cases "click_copy P c s") (simp_all add: step_def)
next
  case (Settles k out)
  then show ?thesis
    by (simp add: step_def settle_def handleAnalyze_settled_def Let_def split: sum.splits)
qed (simp_all add: step_def handleClear_def click_analyze_def handleAnalyze_def elapse_def
       Let_def)

lemma clock_run: "clock s \<le> clock (run P es s)"
  unfolding run_def
proof (induction es arbitrary: s)
  case Nil
  show ?case by simp
next
  case (Cons e es)
  from clock_step [of s P e] Cons [of "step P e s"] show ?case by simp
qed

lemma timers_step:
  assumes "t \<in> set (timers s)" and "clock (step P e s) < t"
  shows "t \<in> set (timers (step P e s))"
proof (cases e)
  case (ClickCopy c)
  then show ?thesis
    using assms click_copy_timers [of P c s]
    by (cases "click_copy P c s") (auto simp add: step_def)
next
  case (Settles k out)
  then show ?thesis using assms
    by (simp add: step_def settle_def handleAnalyze_settled_def Let_def split: sum.splits)
next
  case (Elapses dt)
  then show ?thesis using assms
    by (auto simp add: step_def elapse_def Let_def split: if_splits)
qed (use assms in \<open>simp_all add: step_def handleClear_def click_analyze_def handleAnalyze_def\<close>)

lemma timers_run:
  "t \<in> set (timers s) \<Longrightarrow> clock (run P es s) < t \<Longrightarrow> t \<in> set (timers (run P es s))"
proof (induction es arbitrary: s)
  case Nil
  then show ?case by (simp add: run_def)
next
  case (Cons e es)
  have r: "run P (e # es) s = run P es (step P e s)"
    by (simp add: run_def)
  from clock_run [of "step P e s" P es] Cons.prems(2) have "clock (step P e s) < t"
    by (simp add: r)
  from timers_step [OF Cons.prems(1) this] Cons.prems(2) show ?case
    unfolding r by (rule Cons.IH)
qed

text \<open>
  Copying the past tense at time 0 and the future tense at time 1500: both timers are
  pending after the second copy, and at time 2000 the first one runs and resets the
  indicator, 1500 units before the second copy's own expiry.
\<close>

theorem earlier_timer_clears_later_copy_counterexample:
  "copiedCategory (run example_platform
     [ClickCopy (CopyCategory ''past'' (Array [''was''])), Elapses 1500,
      ClickCopy (CopyCategory ''future'' (Array [''will'']))] initial) = Some ''future'' \<and>
   timers (run example_platform
     [ClickCopy (CopyCategory ''past'' (Array [''was''])), Elapses 1500,
      ClickCopy (CopyCategory ''future'' (Array [''will'']))] initial) = [2000, 3500] \<and>
   copiedCategory (run example_platform
     [ClickCopy (CopyCategory ''past'' (Array [''was''])), Elapses 1500,
      ClickCopy (CopyCategory ''future'' (Array [''will''])), Elapses 500] initial) = None \<and>
   clock (run example_platform
     [ClickCopy (CopyCategory ''past'' (Array [''was''])), Elapses 1500,
      ClickCopy (CopyCategory ''future'' (Array [''will''])), Elapses 500] initial) = 2000"
  by (simp add: run_def step_def click_copy_def handleCopyCategory_def elapse_def initial_def)

text \<open>
  C3, as the code has it. Every copy action sets the indicator to its own category and
  schedules a callback 2000 units later, and no callback is ever cancelled: whatever the
  events of a session, a pending callback stays pending until its time has come. So when
  a copy of \<open>a\<close> is followed within the window, \<open>d\<close> units later, by a copy of \<open>b\<close>, the
  indicator shows \<open>b\<close> with both callbacks pending, and it is reset when the callback of
  \<open>a\<close> runs, 2000 units after the first copy, with the callback of \<open>b\<close> still pending.
\<close>

theorem copy_timers_are_never_cancelled:
  assumes r: "result s = Some r" and t: "timers s = []" and d: "0 < d" "d < 2000"
  shows "copiedCategory (run P [ClickCopy a] s) = Some (copy_category a) \<and>
         timers (run P [ClickCopy a, Elapses d, ClickCopy b] s) =
           [clock s + 2000, clock s + d + 2000] \<and>
         copiedCategory (run P [ClickCopy a, Elapses d, ClickCopy b] s) = Some (copy_category b) \<and>
         copiedCategory (run P [ClickCopy a, Elapses d, ClickCopy b, Elapses (2000 - d)] s) = None \<and>
         clock (run P [ClickCopy a, Elapses d, ClickCopy b, Elapses (2000 - d)] s) = clock s + 2000 \<and>
         timers (run P [ClickCopy a, Elapses d, ClickCopy b, Elapses (2000 - d)] s) =
           [clock s + d + 2000] \<and>
         (\<forall>due \<in> set (timers s0).
            clock (run P es s0) < due \<longrightarrow> due \<in> set (timers (run P es s0))) \<and>
         (result s0 \<noteq> None \<longrightarrow>
            timers (step P (ClickCopy c) s0) = timers s0 @ [clock s0 + 2000] \<and>
            copiedCategory (step P (ClickCopy c) s0) = Some (copy_category c))"
proof -
  let ?s1 = "step P (ClickCopy a) s"
  let ?s2 = "step P (Elapses d) ?s1"
  let ?s3 = "step P (ClickCopy b) ?s2"
  let ?s4 = "step P (Elapses (2000 - d)) ?s3"
  have s1: "copiedCategory ?s1 = Some (copy_category a)" "timers ?s1 = [clock s + 2000]"
    "clock ?s1 = clock s" "result ?s1 = Some r"
    using step_copy [OF r, of P a] r t by simp_all
  have s2: "copiedCategory ?s2 = Some (copy_category a)" "timers ?s2 = [clock s + 2000]"
    "clock ?s2 = clock s + d" "result ?s2 = Some r"
    using s1 d by (simp_all add: step_def elapse_def Let_def)
  have s3: "copiedCategory ?s3 = Some (copy_category b)"
    "timers ?s3 = [clock s + 2000, clock s + d + 2000]" "clock ?s3 = clock s + d"
    using step_copy [OF s2(4), of P b] s2 by simp_all
  have s4: "copiedCategory ?s4 = None" "clock ?s4 = clock s + 2000"
    "timers ?s4 = [clock s + d + 2000]"
    using s3 d by (simp_all add: step_def [of P "Elapses (2000 - d)"] elapse_def Let_def)
  have trace: "copiedCategory (run P [ClickCopy a] s) = Some (copy_category a) \<and>
         timers (run P [ClickCopy a, Elapses d, ClickCopy b] s) =
           [clock s + 2000, clock s + d + 2000] \<and>
         copiedCategory (run P [ClickCopy a, Elapses d, ClickCopy b] s) = Some (copy_category b) \<and>
         copiedCategory (run P [ClickCopy a, Elapses d, ClickCopy b, Elapses (2000 - d)] s) = None \<and>
         clock (run P [ClickCopy a, Elapses d, ClickCopy b, Elapses (2000 - d)] s) = clock s + 2000 \<and>
         timers (run P [ClickCopy a, Elapses d, ClickCopy b, Elapses (2000 - d)] s) =
           [clock s + d + 2000]"
    using s1 s3 s4 by (simp add: run_def)
  have pending: "\<forall>due \<in> set (timers s0).
            clock (run P es s0) < due \<longrightarrow> due \<in> set (timers (run P es s0))"
    by (blast intro: timers_run)
  have scheduled: "timers (step P (ClickCopy c) s0) = timers s0 @ [clock s0 + 2000] \<and>
            copiedCategory (step P (ClickCopy c) s0) = Some (copy_category c)"
    if "result s0 \<noteq> None"
  proof -
    from that obtain r0 where "result s0 = Some r0" by auto
    from step_copy [OF this, of P c] show ?thesis by simp
  qed
  from trace pending scheduled show ?thesis by blast
qed

theorem copy_timers_are_never_cancelled_witness:
  "result example_app = Some example_result \<and> timers example_app = [] \<and>
   copiedCategory (run example_platform [ClickCopy CopyStats, Elapses 1500, ClickCopy CopyPassive] example_app)
     = Some ''passive'' \<and>
   copiedCategory (run example_platform
     [ClickCopy CopyStats, Elapses 1500, ClickCopy CopyPassive, Elapses 500] example_app) = None \<and>
   timers (run example_platform
     [ClickCopy CopyStats, Elapses 1500, ClickCopy CopyPassive, Elapses 500] example_app) = [3500] \<and>
   clock (run example_platform [ClickClear, Change ''The dog sat.'', Elapses 500]
     (run example_platform [ClickCopy CopyStats, Elapses 1500, ClickCopy CopyPassive] example_app))
     = 2000 \<and>
   3500 \<in> set (timers (run example_platform [ClickClear, Change ''The dog sat.'', Elapses 500]
     (run example_platform [ClickCopy CopyStats, Elapses 1500, ClickCopy CopyPassive] example_app)))"
proof -
  let ?s0 = "run example_platform [ClickCopy CopyStats, Elapses 1500, ClickCopy CopyPassive]
               example_app"
  let ?es = "[ClickClear, Change ''The dog sat.'', Elapses 500]"
  have r: "result example_app = Some example_result" and t: "timers example_app = []"
    and c: "clock example_app = 0"
    by (simp_all add: example_app_def initial_def)
  note th = copy_timers_are_never_cancelled
    [OF r t, of 1500 example_platform CopyStats CopyPassive ?s0 ?es CopyStats]
  from th have tm: "timers ?s0 = [2000, 3500]"
    using c by simp
  have s0: "clock ?s0 = 1500"
    by (simp add: run_def step_def click_copy_def handleCopyStats_def handleCopyPassive_def
          elapse_def Let_def example_app_def initial_def)
  have ck: "clock (run example_platform ?es ?s0) = 2000"
    using s0 by (simp add: run_def [of _ ?es] step_def handleClear_def elapse_def Let_def)
  from th tm ck have "3500 \<in> set (timers (run example_platform ?es ?s0))"
    by simp
  with th ck show ?thesis using r t c by (simp add: copy_category_def)
qed

section \<open>Copying a tense category\<close>

text \<open>
  The example result has no future tense verbs: the markup renders no copy button for
  the category, and \<open>handleCopyCategory\<close> on the empty array writes the empty string,
  not \<open>None\<close>.
\<close>

theorem copy_of_empty_future_counterexample:
  "future (tense_analysis example_result) = [] \<and>
   future_copy_button example_result = None \<and>
   clipboard (handleCopyCategory ''future'' (Array (future (tense_analysis example_result)))
     example_app) = Some '''' \<and>
   clipboard (handleCopyCategory ''future'' (Array (future (tense_analysis example_result)))
     example_app) \<noteq> Some ''None''"
  by (simp add: example_result_def future_copy_button_def handleCopyCategory_def)

text \<open>
  C8, as the code has it. \<open>handleCopyCategory\<close> writes the words joined by a comma and a
  space, which for no words is the empty string. For a result with no future tense verbs
  the markup renders no copy button for the future tense; for one with some, the button
  copies their joined list and marks \<open>future\<close> as copied.
\<close>

theorem copy_of_tense_category:
  "clipboard (handleCopyCategory category (Array ws) s) = Some (join '', '' ws) \<and>
   (ws = [] \<longrightarrow> clipboard (handleCopyCategory category (Array ws) s) = Some '''') \<and>
   (future (tense_analysis r) = [] \<longrightarrow> future_copy_button r = None) \<and>
   (future (tense_analysis r) \<noteq> [] \<longrightarrow>
      (\<exists>h. future_copy_button r = Some h \<and>
           clipboard (h s) = Some (join '', '' (future (tense_analysis r))) \<and>
           copiedCategory (h s) = Some ''future''))"
  by (simp add: handleCopyCategory_def future_copy_button_def)

theorem copy_of_tense_category_witness:
  "clipboard (handleCopyCategory ''past'' (Array [''was'', ''chased'']) example_app) =
     Some ''was, chased'' \<and>
   clipboard (handleCopyCategory ''future'' (Array []) example_app) = Some '''' \<and>
   future_copy_button example_result = None \<and>
   (\<exists>h. future_copy_button (example_result\<lparr>tense_analysis :=
            \<lparr>past = [], present = [], future = [''will'', ''go'']\<rparr>\<rparr>) = Some h \<and>
        clipboard (h example_app) = Some ''will, go'')"
proof -
  have e: "future (tense_analysis example_result) = []"
    by (simp add: example_result_def)
  have n: "future (tense_analysis (example_result\<lparr>tense_analysis :=
            \<lparr>past = [], present = [], future = [''will'', ''go'']\<rparr>\<rparr>)) \<noteq> []"
    by simp
  from copy_of_tense_category [of "''past''" "[''was'', ''chased'']" example_app example_result] e
  have a: "clipboard (handleCopyCategory ''past'' (Array [''was'', ''chased'']) example_app) =
     Some ''was, chased''" and b: "future_copy_button example_result = None"
    by simp_all
  from copy_of_tense_category [of "''future''" "[]" example_app
      "example_result\<lparr>tense_analysis := \<lparr>past = [], present = [], future = [''will'', ''go'']\<rparr>\<rparr>"] n
  have c: "clipboard (handleCopyCategory ''future'' (Array []) example_app) = Some ''''"
    and d: "\<exists>h. future_copy_button (example_result\<lparr>tense_analysis :=
            \<lparr>past = [], present = [], future = [''will'', ''go'']\<rparr>\<rparr>) = Some h \<and>
        clipboard (h example_app) = Some ''will, go''"
    by auto
  from a b c d show ?thesis by blast
qed

section \<open>A call that fails\<close>

lemma settle_failure:
  assumes g: "one_call s" and k: "k < length (in_flight s)" and f: "try_block out = Inl m"
  shows "result (settle k out s) = None \<and>
         request_state (settle k out s) =
           Error (if m \<noteq> '''' then m else ''Failed to connect to server'')"
proof -
  from g k have "result s = None"
    by (auto simp add: one_call_def split: if_splits)
  then show ?thesis using k f
    by (simp add: settle_def handleAnalyze_settled_def request_state_def)
qed

text \<open>
  A call that \<open>fetch\<close> rejects, and a response that is not ok and whose body is not JSON:
  no \<open>detail\<close> is there, and the message shown is the text of the exception, not one of
  the component's fallbacks.
\<close>

theorem failed_fetch_message_counterexample:
  "request_state (settle 0 (Rejects ''Failed to fetch'')
     (run example_platform [Change ''The cat sat.'', ClickAnalyze] initial)) =
     Error ''Failed to fetch'' \<and>
   request_state (settle 0 (Resolves False (Inl ''Unexpected end of JSON input''))
     (run example_platform [Change ''The cat sat.'', ClickAnalyze] initial)) =
     Error ''Unexpected end of JSON input'' \<and>
   request_state (settle 0 (Rejects ''Failed to fetch'')
     (run example_platform [Change ''The cat sat.'', ClickAnalyze] initial)) \<noteq>
     Error ''Failed to connect to server'' \<and>
   request_state (settle 0 (Resolves False (Inl ''Unexpected end of JSON input''))
     (run example_platform [Change ''The cat sat.'', ClickAnalyze] initial)) \<noteq>
     Error ''Analysis failed''"
  by (simp add: run_def step_def click_analyze_def analyze_disabled_def handleAnalyze_def
        settle_def handleAnalyze_settled_def try_block_def request_state_def initial_def
        trim_def is_white_space_def)

text \<open>
  C9, as the code has it. A valid submit clears the stored result before the call. In
  every session (the clicks on Analyze subject to the button's \<open>disabled\<close> attribute),
  when the call in flight fails, no result is stored afterwards and the request state is
  \<open>Error\<close>. Its message is the body's \<open>detail\<close> when the response is not ok and \<open>detail\<close>
  is a non-empty string, and \<open>Analysis failed\<close> when the body has no such \<open>detail\<close>; when
  \<open>fetch\<close> or \<open>json()\<close> rejects, it is the message of the rejection, and
  \<open>Failed to connect to server\<close> only when that message is empty.
\<close>

theorem failed_call_leaves_no_result:
  assumes k: "k < length (in_flight (run P es initial))"
  shows "(trim (text' s) \<noteq> '''' \<and> 10 \<le> length (text' s) \<longrightarrow> result (handleAnalyze s) = None) \<and>
         result (settle k (Rejects m) (run P es initial)) = None \<and>
         request_state (settle k (Rejects m) (run P es initial)) =
           Error (if m \<noteq> '''' then m else ''Failed to connect to server'') \<and>
         result (settle k (Resolves ok (Inl m)) (run P es initial)) = None \<and>
         request_state (settle k (Resolves ok (Inl m)) (run P es initial)) =
           Error (if m \<noteq> '''' then m else ''Failed to connect to server'') \<and>
         result (settle k (Resolves False (Inr data)) (run P es initial)) = None \<and>
         request_state (settle k (Resolves False (Inr data)) (run P es initial)) =
           Error (case detail data of
                    Some d \<Rightarrow> if d \<noteq> '''' then d else ''Analysis failed''
                  | None \<Rightarrow> ''Analysis failed'')"
proof -
  have g: "one_call (run P es initial)"
    by (rule one_call_run [OF one_call_initial])
  have a: "result (handleAnalyze s) = None" if "trim (text' s) \<noteq> ''''" "10 \<le> length (text' s)"
    using that by (simp add: handleAnalyze_def)
  have r: "try_block (Rejects m) = Inl m"
    by (simp add: try_block_def)
  have j: "try_block (Resolves ok (Inl m)) = Inl m"
    by (simp add: try_block_def)
  obtain m' where m': "try_block (Resolves False (Inr data)) = Inl m'"
    and e: "m' = (case detail data of
                    Some d \<Rightarrow> if d \<noteq> '''' then d else ''Analysis failed''
                  | None \<Rightarrow> ''Analysis failed'')"
    by (simp add: try_block_def)
  have ne: "m' \<noteq> ''''"
    using e by (simp split: option.splits)
  from settle_failure [OF g k r] settle_failure [OF g k j] settle_failure [OF g k m'] a e ne
  show ?thesis by simp
qed

theorem failed_call_leaves_no_result_witness:
  "result (run example_platform
     [Change ''The cat sat.'', ClickAnalyze, Settles 0 (Resolves True (Inr example_result))]
     initial) = Some example_result \<and>
   in_flight (run example_platform
     [Change ''The cat sat.'', ClickAnalyze, Settles 0 (Resolves True (Inr example_result)),
      ClickAnalyze] initial) = [''The cat sat.''] \<and>
   result (settle 0 (Resolves False (Inr (example_result\<lparr>detail := Some ''Text is too long''\<rparr>)))
     (run example_platform
       [Change ''The cat sat.'', ClickAnalyze, Settles 0 (Resolves True (Inr example_result)),
        ClickAnalyze] initial)) = None \<and>
   request_state (settle 0 (Resolves False (Inr (example_result\<lparr>detail := Some ''Text is too long''\<rparr>)))
     (run example_platform
       [Change ''The cat sat.'', ClickAnalyze, Settles 0 (Resolves True (Inr example_result)),
        ClickAnalyze] initial)) = Error ''Text is too long'' \<and>
   request_state (settle 0 (Rejects '''')
     (run example_platform
       [Change ''The cat sat.'', ClickAnalyze, Settles 0 (Resolves True (Inr example_result)),
        ClickAnalyze] initial)) = Error ''Failed to connect to server''"
proof -
  have a: "result (run example_platform
     [Change ''The cat sat.'', ClickAnalyze, Settles 0 (Resolves True (Inr example_result))]
     initial) = Some example_result"
    by (simp add: run_def step_def click_analyze_def analyze_disabled_def handleAnalyze_def
          settle_def handleAnalyze_settled_def try_block_def initial_def trim_def
          is_white_space_def)
  have b: "in_flight (run example_platform
     [Change ''The cat sat.'', ClickAnalyze, Settles 0 (Resolves True (Inr example_result)),
      ClickAnalyze] initial) = [''The cat sat.'']"
    by (simp add: run_def step_def click_analyze_def analyze_disabled_def handleAnalyze_def
          settle_def handleAnalyze_settled_def try_block_def initial_def trim_def
          is_white_space_def)
  then have k: "0 < length (in_flight (run example_platform
     [Change ''The cat sat.'', ClickAnalyze, Settles 0 (Resolves True (Inr example_result)),
      ClickAnalyze] initial))"
    by simp
  from failed_call_leaves_no_result [OF k, of "initial :: nat app" "''''" True
      "example_result\<lparr>detail := Some ''Text is too long''\<rparr>"] a b
  show ?thesis by simp
qed

section \<open>The lines of the exported document\<close>

lemma drawn_append: "drawn (xs @ ys) = drawn xs @ drawn ys"
  by (induction xs rule: drawn.induct) simp_all

lemma addText_line_font:
  "activeFontSize (doc (addText_line line l)) = activeFontSize (doc l) \<and>
   activeBold (doc (addText_line line l)) = activeBold (doc l)"
  by (simp add: addText_line_def Let_def doc_text_def addPage_def)

lemma drawn_addText_line:
  "drawn (content (doc (addText_line line l))) =
     drawn (content (doc l)) @ [(activeFontSize (doc l), activeBold (doc l), line)]"
  by (simp add: addText_line_def Let_def doc_text_def addPage_def drawn_append)

lemma drawn_fold_addText_line:
  "drawn (content (doc (fold addText_line lines l))) =
     drawn (content (doc l)) @
     map (\<lambda>line. (activeFontSize (doc l), activeBold (doc l), line)) lines"
proof (induction lines arbitrary: l)
  case Nil
  show ?case by simp
next
  case (Cons line lines)
  show ?case
    by (simp add: Cons.IH drawn_addText_line addText_line_font)
qed

lemma drawn_addText:
  "drawn (content (doc (addText P inp fontSize isBold l))) =
     drawn (content (doc l)) @ wrapped P fontSize isBold inp"
  by (simp add: addText_def Let_def drawn_fold_addText_line setFont_def setFontSize_def
        wrapped_def)

lemma drawn_addSection:
  "drawn (content (doc (addSection P title l))) =
     drawn (content (doc l)) @ wrapped P 14 True title"
  by (simp add: addSection_def Let_def drawn_addText addPage_def drawn_append)

lemma drawn_fold_addText:
  "drawn (content (doc (fold (\<lambda>x. addText P (g x) fontSize isBold) xs l))) =
     drawn (content (doc l)) @ concat (map (\<lambda>x. wrapped P fontSize isBold (g x)) xs)"
  by (induction xs arbitrary: l) (simp_all add: drawn_addText)

lemma drawn_pdf_title:
  "drawn (content (doc (pdf_title l))) = drawn (content (doc l)) @ [(20, True, ''Text Analysis Report'')]"
  by (simp add: pdf_title_def Let_def doc_text_def setFont_def setFontSize_def drawn_append)

lemma drawn_pdf_date:
  "drawn (content (doc (pdf_date P l))) =
     drawn (content (doc l)) @ [(10, False, ''Generated: '' @ toLocaleString P)]"
  by (simp add: pdf_date_def Let_def doc_text_def setFont_def setFontSize_def drawn_append)

lemma drawn_pdf_input_text:
  "drawn (content (doc (pdf_input_text P inp l))) =
     drawn (content (doc l)) @ section_lines P (''INPUT TEXT'', [(11, inp)])"
  by (simp add: pdf_input_text_def drawn_addText drawn_addSection section_lines_def)

lemma drawn_pdf_text_statistics:
  "drawn (content (doc (pdf_text_statistics P r l))) =
     drawn (content (doc l)) @ section_lines P (report_sections P inp r ! 1)"
  by (simp add: pdf_text_statistics_def Let_def drawn_addText drawn_addSection
        section_lines_def report_sections_def)

lemma drawn_pdf_readability:
  "drawn (content (doc (pdf_readability P r l))) =
     drawn (content (doc l)) @ section_lines P (report_sections P inp r ! 2)"
  by (simp add: pdf_readability_def Let_def drawn_addText drawn_addSection
        section_lines_def report_sections_def)

lemma drawn_pdf_tense_analysis:
  "drawn (content (doc (pdf_tense_analysis P r l))) =
     drawn (content (doc l)) @ section_lines P (report_sections P inp r ! 3)"
  by (simp add: pdf_tense_analysis_def Let_def drawn_addText drawn_addSection
        section_lines_def report_sections_def tense_text_def)

lemma drawn_pdf_passive_voice:
  "drawn (content (doc (pdf_passive_voice P r l))) =
     drawn (content (doc l)) @ section_lines P (report_sections P inp r ! 4)"
  by (simp add: pdf_passive_voice_def Let_def drawn_addText drawn_addSection
        drawn_fold_addText section_lines_def report_sections_def passive_body_def numbered_def
        comp_def case_prod_unfold)

lemma enumerate_map: "enumerate n (map f xs) = map (\<lambda>(i, x). (i, f x)) (enumerate n xs)"
  by (induction xs arbitrary: n) simp_all

lemma drawn_pdf_word_frequency:
  "drawn (content (doc (pdf_word_frequency P r l))) =
     drawn (content (doc l)) @ section_lines P (report_sections P inp r ! 5)"
  by (simp add: pdf_word_frequency_def Let_def drawn_addText drawn_addSection
        drawn_fold_addText section_lines_def report_sections_def numbered_def
        comp_def case_prod_unfold enumerate_map)

lemma pos_step:
  "drawn (content (doc ((if has_words x then addText P (pos_line label (the x)) 12 False else id) l))) =
     drawn (content (doc l)) @
     concat (map (\<lambda>(label, ws). wrapped P 12 False (pos_line label ws))
       (filter (\<lambda>(label, ws). ws \<noteq> []) [(label, case x of None \<Rightarrow> [] | Some xs \<Rightarrow> xs)]))"
  by (cases x) (simp_all add: has_words_def drawn_addText)

lemma drawn_pdf_parts_of_speech:
  "drawn (content (doc (pdf_parts_of_speech P r l))) =
     drawn (content (doc l)) @ section_lines P (report_sections P inp r ! 6)"
proof -
  have "drawn (content (doc (pdf_parts_of_speech P r l))) =
     drawn (content (doc l)) @ wrapped P 14 True ''PARTS OF SPEECH'' @
     concat (map (\<lambda>(label, ws). wrapped P 12 False (pos_line label ws))
       (filter (\<lambda>(label, ws). ws \<noteq> []) (categories (parts_of_speech r))))"
    unfolding pdf_parts_of_speech_def Let_def categories_def
    by (simp only: pos_step drawn_addSection list.map filter_append [symmetric] append_assoc
          map_append [symmetric] concat_append [symmetric] append.simps prod.case)
  then show ?thesis
    by (simp add: section_lines_def report_sections_def parts_of_speech_body_def comp_def
          case_prod_unfold)
qed


lemma export_lines:
  assumes "result s = Some r"
  shows "\<exists>d. handleDownloadPDF P s = Inr d \<and> saved d = Some ''text-analysis-report.pdf'' \<and>
             drawn (content d) = report_lines P (text' s) r"
proof -
  have "drawn (content (save ''text-analysis-report.pdf''
          (doc (pdf_parts_of_speech P r (pdf_word_frequency P r (pdf_passive_voice P r
            (pdf_tense_analysis P r (pdf_readability P r (pdf_text_statistics P r
              (pdf_input_text P (text' s) (pdf_date P (pdf_title
                 \<lparr>doc = new_jsPDF, yPos = 20\<rparr>))))))))))))
        = report_lines P (text' s) r"
    by (simp add: save_def drawn_pdf_parts_of_speech [where inp = "text' s"]
          drawn_pdf_word_frequency [where inp = "text' s"]
          drawn_pdf_passive_voice [where inp = "text' s"]
          drawn_pdf_tense_analysis [where inp = "text' s"]
          drawn_pdf_readability [where inp = "text' s"]
          drawn_pdf_text_statistics [where inp = "text' s"]
          drawn_pdf_input_text drawn_pdf_date drawn_pdf_title new_jsPDF_def
          report_lines_def header_lines_def report_sections_def)
  then show ?thesis using assms
    by (simp add: handleDownloadPDF_def Let_def save_def)
qed

text \<open>
  C5. With a result stored, the handler returns a document whose lines, read in order
  across its pages, are the header and then the lines of the sections of the report, in
  the order INPUT TEXT, TEXT STATISTICS, READABILITY SCORE, TENSE ANALYSIS, PASSIVE VOICE
  DETECTION, WORD FREQUENCY (TOP 10), PARTS OF SPEECH: each section is its title and then
  every wrapped line of every text of its body, none left out or moved. The body of the
  last section is the lines of the categories that have words, in the order nouns, verbs,
  adjectives, adverbs, pronouns, prepositions, conjunctions.
\<close>

theorem export_keeps_section_order:
  assumes "result s = Some r"
  shows "(\<exists>d. handleDownloadPDF P s = Inr d \<and>
            drawn (content d) =
              header_lines P @ concat (map (section_lines P) (report_sections P (text' s) r))) \<and>
         map fst (report_sections P (text' s) r) =
           [''INPUT TEXT'', ''TEXT STATISTICS'', ''READABILITY SCORE'', ''TENSE ANALYSIS'',
            ''PASSIVE VOICE DETECTION'', ''WORD FREQUENCY (TOP 10)'', ''PARTS OF SPEECH''] \<and>
         map snd (snd (last (report_sections P (text' s) r))) =
           map (\<lambda>(label, ws). pos_line label ws)
             (filter (\<lambda>(label, ws). ws \<noteq> []) (categories (parts_of_speech r)))"
proof -
  from export_lines [OF assms, of P] obtain d where
    "handleDownloadPDF P s = Inr d" "drawn (content d) = report_lines P (text' s) r"
    by blast
  then show ?thesis
    by (simp add: report_lines_def) (simp add: report_sections_def parts_of_speech_body_def comp_def)
qed

theorem export_keeps_section_order_witness:
  "result example_app = Some example_result \<and>
   (\<exists>d. handleDownloadPDF example_platform example_app = Inr d \<and>
        map (\<lambda>(fontSize, isBold, line). line) (drawn (content d)) =
          [''Text Analysis Report'', ''Generated: 11/3/2026, 9:30:00 AM'',
           ''INPUT TEXT'', ''The cat was chased by the dog.'',
           ''TEXT STATISTICS'', ''Words: 7'', ''Sentences: 1'',
           ''Average Words per Sentence: 7'', ''Average Word Length: 3'', ''Characters: 30'',
           ''READABILITY SCORE'', ''Flesch-Kincaid Grade Level: 2'',
           ''Reading Level: Elementary'', ''Description: Very easy to read'',
           ''TENSE ANALYSIS'', ''Past Tense: was, chased'', ''Present Tense: None'',
           ''Future Tense: None'',
           ''PASSIVE VOICE DETECTION'', ''Found 1 sentence(s) with passive voice:'',
           ''1. The cat was chased by the dog.'',
           ''WORD FREQUENCY (TOP 10)'', ''1. the: 2'', ''2. cat: 1'',
           ''PARTS OF SPEECH'', ''Nouns (2): cat, dog'', ''Verbs (1): chased'',
           ''Prepositions (1): by''])"
proof -
  have r: "result example_app = Some example_result"
    by (simp add: example_app_def)
  have e: "map (\<lambda>(fontSize, isBold, line). line)
             (header_lines example_platform @
              concat (map (section_lines example_platform)
                (report_sections example_platform (text' example_app) example_result))) =
          [''Text Analysis Report'', ''Generated: 11/3/2026, 9:30:00 AM'',
           ''INPUT TEXT'', ''The cat was chased by the dog.'',
           ''TEXT STATISTICS'', ''Words: 7'', ''Sentences: 1'',
           ''Average Words per Sentence: 7'', ''Average Word Length: 3'', ''Characters: 30'',
           ''READABILITY SCORE'', ''Flesch-Kincaid Grade Level: 2'',
           ''Reading Level: Elementary'', ''Description: Very easy to read'',
           ''TENSE ANALYSIS'', ''Past Tense: was, chased'', ''Present Tense: None'',
           ''Future Tense: None'',
           ''PASSIVE VOICE DETECTION'', ''Found 1 sentence(s) with passive voice:'',
           ''1. The cat was chased by the dog.'',
           ''WORD FREQUENCY (TOP 10)'', ''1. the: 2'', ''2. cat: 1'',
           ''PARTS OF SPEECH'', ''Nouns (2): cat, dog'', ''Verbs (1): chased'',
           ''Prepositions (1): by'']"
    by (simp add: header_lines_def section_lines_def report_sections_def wrapped_def
          example_platform_def example_app_def example_result_def initial_def tense_text_def
          passive_body_def numbered_def parts_of_speech_body_def categories_def pos_line_def
          nat_to_string.simps digit_def)
  from export_keeps_section_order [OF r, of example_platform] obtain d where
    "handleDownloadPDF example_platform example_app = Inr d"
    "drawn (content d) = header_lines example_platform @
       concat (map (section_lines example_platform)
         (report_sections example_platform (text' example_app) example_result))"
    by blast
  with e r show ?thesis by simp
qed

section \<open>The sections of passive voice and of parts of speech\<close>

lemma not_bold_wrapped: "(fs, True, line) \<notin> set (wrapped P fontSize False inp)"
  by (auto simp add: wrapped_def)

lemma section_body_found:
  assumes "(14, True, title) \<notin> set pre" and "\<forall>x \<in> set body. \<not> fst (snd x)"
  shows "section_body title (pre @ (14, True, title) # body @ (fs, True, next_title) # rest) =
           map (\<lambda>x. snd (snd x)) body"
proof -
  have "dropWhile (\<lambda>x. x \<noteq> (14, True, title))
          (pre @ (14, True, title) # body @ (fs, True, next_title) # rest) =
        (14, True, title) # body @ (fs, True, next_title) # rest"
    using assms(1) by (auto simp add: dropWhile_append3)
  moreover have "takeWhile (\<lambda>(fontSize, isBold, line). \<not> isBold)
          (body @ (fs, True, next_title) # rest) = body"
    using assms(2) by (induction body) auto
  ultimately show ?thesis
    by (simp add: section_body_def case_prod_unfold)
qed

lemma titles_unwrappedD:
  "titles_unwrapped P \<Longrightarrow> title \<in> set section_titles \<Longrightarrow>
     wrapped P 14 True title = [(14, True, title)]"
  by (simp add: titles_unwrapped_def wrapped_def)

lemma example_lines:
  "report_lines example_platform (text' example_app) example_result =
     [(20, True, ''Text Analysis Report''), (10, False, ''Generated: 11/3/2026, 9:30:00 AM''),
      (14, True, ''INPUT TEXT''), (11, False, ''The cat was chased by the dog.''),
      (14, True, ''TEXT STATISTICS''), (12, False, ''Words: 7''), (12, False, ''Sentences: 1''),
      (12, False, ''Average Words per Sentence: 7''), (12, False, ''Average Word Length: 3''),
      (12, False, ''Characters: 30''),
      (14, True, ''READABILITY SCORE''), (12, False, ''Flesch-Kincaid Grade Level: 2''),
      (12, False, ''Reading Level: Elementary''), (12, False, ''Description: Very easy to read''),
      (14, True, ''TENSE ANALYSIS''), (12, False, ''Past Tense: was, chased''),
      (12, False, ''Present Tense: None''), (12, False, ''Future Tense: None''),
      (14, True, ''PASSIVE VOICE DETECTION''),
      (12, False, ''Found 1 sentence(s) with passive voice:''),
      (12, False, ''1. The cat was chased by the dog.''),
      (14, True, ''WORD FREQUENCY (TOP 10)''), (12, False, ''1. the: 2''),
      (12, False, ''2. cat: 1''),
      (14, True, ''PARTS OF SPEECH''), (12, False, ''Nouns (2): cat, dog''),
      (12, False, ''Verbs (1): chased''), (12, False, ''Prepositions (1): by'')]"
  by (simp add: report_lines_def header_lines_def section_lines_def report_sections_def
        wrapped_def example_platform_def example_app_def example_result_def initial_def
        tense_text_def passive_body_def numbered_def parts_of_speech_body_def categories_def
        pos_line_def nat_to_string.simps digit_def)

text \<open>
  The example result has one passive sentence. Under the title PASSIVE VOICE DETECTION the
  document has two body lines: the line of the count, and the sentence with its number
  before it.
\<close>

theorem passive_section_two_lines_counterexample:
  "length (passive_sentences example_result) = 1 \<and>
   (case handleDownloadPDF example_platform example_app of
      Inl e \<Rightarrow> False
    | Inr d \<Rightarrow>
        section_body ''PASSIVE VOICE DETECTION'' (drawn (content d)) =
          [''Found 1 sentence(s) with passive voice:'', ''1. The cat was chased by the dog.''])"
proof -
  have r: "result example_app = Some example_result"
    by (simp add: example_app_def)
  from export_lines [OF r, of example_platform] obtain d where
    d: "handleDownloadPDF example_platform example_app = Inr d"
    "drawn (content d) = report_lines example_platform (text' example_app) example_result"
    by blast
  have "section_body ''PASSIVE VOICE DETECTION'' (drawn (content d)) =
          [''Found 1 sentence(s) with passive voice:'', ''1. The cat was chased by the dog.'']"
    by (simp add: d(2) example_lines section_body_def)
  with d(1) show ?thesis
    by (simp add: example_result_def)
qed

text \<open>
  C7, as the code has it. For a result with exactly one passive sentence, and section
  titles that are not wrapped, the body under the title PASSIVE VOICE DETECTION is the
  wrapped lines of \<open>Found 1 sentence(s) with passive voice:\<close> followed by the wrapped
  lines of the sentence numbered \<open>1.\<close>; the text \<open>No passive voice sentences detected.\<close>
  is not written.
\<close>

theorem passive_section_of_one_sentence:
  assumes r: "result s = Some r" and one: "passive_sentences r = [sentence]"
    and fit: "titles_unwrapped P"
  shows "\<exists>d. handleDownloadPDF P s = Inr d \<and>
           section_body ''PASSIVE VOICE DETECTION'' (drawn (content d)) =
             splitTextToSize P 12 False ''Found 1 sentence(s) with passive voice:'' (maxWidth P) @
             splitTextToSize P 12 False (''1. '' @ sentence) (maxWidth P)"
proof -
  from export_lines [OF r, of P] obtain d where
    d: "handleDownloadPDF P s = Inr d" "drawn (content d) = report_lines P (text' s) r"
    by blast
  define pre where
    "pre = header_lines P @ concat (map (section_lines P) (take 4 (report_sections P (text' s) r)))"
  define body where
    "body = wrapped P 12 False ''Found 1 sentence(s) with passive voice:'' @
            wrapped P 12 False (''1. '' @ sentence)"
  define rest where
    "rest = concat (map (\<lambda>(fontSize, inp). wrapped P fontSize False inp)
              (snd (report_sections P (text' s) r ! 5))) @
            section_lines P (report_sections P (text' s) r ! 6)"
  have t: "wrapped P 14 True ''INPUT TEXT'' = [(14, True, ''INPUT TEXT'')]"
    "wrapped P 14 True ''TEXT STATISTICS'' = [(14, True, ''TEXT STATISTICS'')]"
    "wrapped P 14 True ''READABILITY SCORE'' = [(14, True, ''READABILITY SCORE'')]"
    "wrapped P 14 True ''TENSE ANALYSIS'' = [(14, True, ''TENSE ANALYSIS'')]"
    "wrapped P 14 True ''PASSIVE VOICE DETECTION'' = [(14, True, ''PASSIVE VOICE DETECTION'')]"
    "wrapped P 14 True ''WORD FREQUENCY (TOP 10)'' = [(14, True, ''WORD FREQUENCY (TOP 10)'')]"
    by (simp_all add: titles_unwrappedD [OF fit] section_titles_def)
  have n: "nat_to_string (Suc 0) = ''1''"
    by (simp add: nat_to_string.simps digit_def)
  have split: "report_lines P (text' s) r =
      pre @ (14, True, ''PASSIVE VOICE DETECTION'') # body @
      (14, True, ''WORD FREQUENCY (TOP 10)'') # rest"
    by (simp add: report_lines_def report_sections_def section_lines_def pre_def body_def
          rest_def t one passive_body_def numbered_def n)
  have p: "(14, True, ''PASSIVE VOICE DETECTION'') \<notin> set pre"
    by (auto simp add: pre_def report_sections_def section_lines_def header_lines_def t
          not_bold_wrapped)
  have b: "\<forall>x \<in> set body. \<not> fst (snd x)"
    by (auto simp add: body_def wrapped_def)
  have "section_body ''PASSIVE VOICE DETECTION'' (drawn (content d)) = map (\<lambda>x. snd (snd x)) body"
    unfolding d(2) split by (rule section_body_found [OF p b])
  then show ?thesis using d(1)
    by (simp add: body_def wrapped_def comp_def)
qed

theorem passive_section_of_one_sentence_witness:
  "result example_app = Some example_result \<and>
   passive_sentences example_result = [''The cat was chased by the dog.''] \<and>
   titles_unwrapped example_platform \<and>
   (\<exists>d. handleDownloadPDF example_platform example_app = Inr d \<and>
        section_body ''PASSIVE VOICE DETECTION'' (drawn (content d)) =
          [''Found 1 sentence(s) with passive voice:'', ''1. The cat was chased by the dog.''])"
proof -
  have r: "result example_app = Some example_result"
    by (simp add: example_app_def)
  have one: "passive_sentences example_result = [''The cat was chased by the dog.'']"
    by (simp add: example_result_def)
  have fit: "titles_unwrapped example_platform"
    by (simp add: titles_unwrapped_def example_platform_def)
  from passive_section_of_one_sentence [OF r one fit] r one fit show ?thesis
    by (simp add: example_platform_def)
qed

text \<open>
  C10. With a result stored, the lines of the document are the header, the first six
  sections, the wrapped title PARTS OF SPEECH and the lines of the categories that have
  words. When no category has words (each empty or absent), the document ends with the
  title: the section has no body line. When the title is not wrapped, its line is in the
  document.
\<close>

theorem parts_of_speech_title_unconditional:
  assumes r: "result s = Some r"
  shows "\<exists>d. handleDownloadPDF P s = Inr d \<and>
           drawn (content d) =
             header_lines P @
             concat (map (section_lines P) (butlast (report_sections P (text' s) r))) @
             wrapped P 14 True ''PARTS OF SPEECH'' @
             concat (map (wrapped P 12 False) (parts_of_speech_body (parts_of_speech r))) \<and>
           (\<not> has_words (nouns (parts_of_speech r)) \<and>
            \<not> has_words (verbs (parts_of_speech r)) \<and>
            \<not> has_words (adjectives (parts_of_speech r)) \<and>
            \<not> has_words (adverbs (parts_of_speech r)) \<and>
            \<not> has_words (pronouns (parts_of_speech r)) \<and>
            \<not> has_words (prepositions (parts_of_speech r)) \<and>
            \<not> has_words (conjunctions (parts_of_speech r)) \<longrightarrow>
              drawn (content d) =
                header_lines P @
                concat (map (section_lines P) (butlast (report_sections P (text' s) r))) @
                wrapped P 14 True ''PARTS OF SPEECH'') \<and>
           (splitTextToSize P 14 True ''PARTS OF SPEECH'' (maxWidth P) = [''PARTS OF SPEECH''] \<longrightarrow>
              (14, True, ''PARTS OF SPEECH'') \<in> set (drawn (content d)))"
proof -
  from export_lines [OF r, of P] obtain d where
    d: "handleDownloadPDF P s = Inr d" "drawn (content d) = report_lines P (text' s) r"
    by blast
  have l: "report_lines P (text' s) r =
             header_lines P @
             concat (map (section_lines P) (butlast (report_sections P (text' s) r))) @
             wrapped P 14 True ''PARTS OF SPEECH'' @
             concat (map (wrapped P 12 False) (parts_of_speech_body (parts_of_speech r)))"
    by (simp add: report_lines_def report_sections_def section_lines_def comp_def)
  have e: "parts_of_speech_body (parts_of_speech r) = []"
    if "\<not> has_words (nouns (parts_of_speech r))" "\<not> has_words (verbs (parts_of_speech r))"
      "\<not> has_words (adjectives (parts_of_speech r))" "\<not> has_words (adverbs (parts_of_speech r))"
      "\<not> has_words (pronouns (parts_of_speech r))" "\<not> has_words (prepositions (parts_of_speech r))"
      "\<not> has_words (conjunctions (parts_of_speech r))"
    using that
    by (simp add: parts_of_speech_body_def categories_def has_words_def split: option.splits)
  have m: "(14, True, ''PARTS OF SPEECH'') \<in> set (report_lines P (text' s) r)"
    if "splitTextToSize P 14 True ''PARTS OF SPEECH'' (maxWidth P) = [''PARTS OF SPEECH'']"
    using that unfolding l by (simp add: wrapped_def)
  show ?thesis
    using d l e m by auto
qed

theorem parts_of_speech_title_unconditional_witness:
  "(\<exists>d. handleDownloadPDF example_platform
          (example_app\<lparr>result := Some (example_result\<lparr>parts_of_speech :=
             \<lparr>nouns = None, verbs = Some [], adjectives = None, adverbs = None,
              pronouns = Some [], prepositions = None, conjunctions = None\<rparr>\<rparr>)\<rparr>) = Inr d \<and>
        last (drawn (content d)) = (14, True, ''PARTS OF SPEECH'') \<and>
        (14, True, ''PARTS OF SPEECH'') \<in> set (drawn (content d)))"
proof -
  let ?r = "example_result\<lparr>parts_of_speech :=
             \<lparr>nouns = None, verbs = Some [], adjectives = None, adverbs = None,
              pronouns = Some [], prepositions = None, conjunctions = None\<rparr>\<rparr>"
  have r: "result (example_app\<lparr>result := Some ?r\<rparr>) = Some ?r"
    by simp
  have w: "wrapped example_platform 14 True ''PARTS OF SPEECH'' = [(14, True, ''PARTS OF SPEECH'')]"
    by (simp add: wrapped_def example_platform_def)
  from parts_of_speech_title_unconditional [OF r, of example_platform] w show ?thesis
    by (auto simp add: has_words_def wrapped_def example_platform_def)
qed

section \<open>Titles and page breaks\<close>

lemma paged_append: "paged p (xs @ ys) = paged p xs @ paged (p + page_breaks xs) ys"
  by (induction p xs rule: paged.induct) (simp_all add: page_breaks_def)

lemma titles_kept_snoc:
  "titles_kept (ls @ [(q, c, m)]) =
     (titles_kept ls \<and> (ls \<noteq> [] \<and> fst (snd (last ls)) \<and> \<not> c \<longrightarrow> fst (last ls) = q))"
  by (induction ls rule: titles_kept.induct) auto

lemma kept_font: "kept (l\<lparr>doc := setFont b (setFontSize n (doc l))\<rparr>) = kept l"
  by (simp add: kept_def setFont_def setFontSize_def)

lemma kept_body_line:
  assumes "kept l" and "\<not> activeBold (doc l)"
  shows "kept (addText_line line l) \<and> \<not> activeBold (doc (addText_line line l))"
  using assms
  by (auto simp add: kept_def Let_def addText_line_def doc_text_def addPage_def paged_append
        titles_kept_snoc page_breaks_def)

lemma kept_body_lines:
  "kept l \<Longrightarrow> \<not> activeBold (doc l) \<Longrightarrow> kept (fold addText_line lines l)"
proof (induction lines arbitrary: l)
  case Nil
  then show ?case by simp
next
  case (Cons line lines)
  from kept_body_line [OF Cons.prems, of line] show ?case
    by (simp add: Cons.IH)
qed

lemma kept_addText: "kept l \<Longrightarrow> kept (addText P inp fontSize False l)"
  unfolding addText_def Let_def
  by (rule kept_body_lines) (simp_all add: kept_font, simp add: setFont_def)

lemma kept_fold_addText:
  "kept l \<Longrightarrow> kept (fold (\<lambda>x. addText P (g x) fontSize False) xs l)"
  by (induction xs arbitrary: l) (simp_all add: kept_addText)

lemma addSection_one_line:
  assumes "length (splitTextToSize P 14 True title (maxWidth P)) = 1"
  shows "yPos (addSection P title l) \<le> 264 \<and> (kept l \<longrightarrow> kept (addSection P title l))"
proof -
  from assms obtain x where x: "splitTextToSize P 14 True title (maxWidth P) = [x]"
    by (cases "splitTextToSize P 14 True title (maxWidth P)") auto
  show ?thesis
    by (auto simp add: addSection_def addText_def Let_def x setFont_def setFontSize_def
          addText_line_def doc_text_def addPage_def lineHeight_def kept_def paged_append
          titles_kept_snoc page_breaks_def)
qed

lemma kept_addSection:
  "titles_on_one_line P \<Longrightarrow> title \<in> set section_titles \<Longrightarrow> kept l \<Longrightarrow>
     kept (addSection P title l)"
  using addSection_one_line [of P title l] by (simp add: titles_on_one_line_def)

lemma kept_header: "kept (pdf_date P (pdf_title \<lparr>doc = new_jsPDF, yPos = 20\<rparr>))"
  by (simp add: kept_def pdf_date_def pdf_title_def Let_def new_jsPDF_def doc_text_def
        setFont_def setFontSize_def)

lemma kept_pdf_input_text:
  "titles_on_one_line P \<Longrightarrow> kept l \<Longrightarrow> kept (pdf_input_text P inp l)"
  by (simp add: pdf_input_text_def kept_addText kept_addSection section_titles_def)

lemma kept_pdf_text_statistics:
  "titles_on_one_line P \<Longrightarrow> kept l \<Longrightarrow> kept (pdf_text_statistics P r l)"
  by (simp add: pdf_text_statistics_def Let_def kept_addText kept_addSection section_titles_def)

lemma kept_pdf_readability:
  "titles_on_one_line P \<Longrightarrow> kept l \<Longrightarrow> kept (pdf_readability P r l)"
  by (simp add: pdf_readability_def Let_def kept_addText kept_addSection section_titles_def)

lemma kept_pdf_tense_analysis:
  "titles_on_one_line P \<Longrightarrow> kept l \<Longrightarrow> kept (pdf_tense_analysis P r l)"
  by (simp add: pdf_tense_analysis_def Let_def kept_addText kept_addSection section_titles_def)

lemma kept_pdf_passive_voice:
  "titles_on_one_line P \<Longrightarrow> kept l \<Longrightarrow> kept (pdf_passive_voice P r l)"
  by (simp add: pdf_passive_voice_def Let_def kept_addText kept_addSection section_titles_def
        kept_fold_addText case_prod_unfold)

lemma kept_pdf_word_frequency:
  "titles_on_one_line P \<Longrightarrow> kept l \<Longrightarrow> kept (pdf_word_frequency P r l)"
  by (simp add: pdf_word_frequency_def Let_def kept_addSection section_titles_def
        kept_fold_addText case_prod_unfold)

lemma kept_pdf_parts_of_speech:
  "titles_on_one_line P \<Longrightarrow> kept l \<Longrightarrow> kept (pdf_parts_of_speech P r l)"
  by (simp add: pdf_parts_of_speech_def Let_def kept_addText kept_addSection section_titles_def)

text \<open>
  C6. When every section title takes one line, no title of the exported document is
  split from its body: a body line that comes right after a title is on the title's
  page. After \<open>addSection\<close> the cursor is at most 250 + 5 + 7 + 2 = 264, within the
  270 that \<open>addText\<close> allows before it breaks the page.
\<close>

theorem title_stays_with_its_body:
  assumes r: "result s = Some r" and one: "titles_on_one_line P"
  shows "(\<exists>d. handleDownloadPDF P s = Inr d \<and> titles_kept (paged 1 (content d))) \<and>
         (\<forall>title \<in> set section_titles. yPos (addSection P title l) \<le> 250 + 5 + 7 + 2)"
proof -
  have "kept (pdf_parts_of_speech P r (pdf_word_frequency P r (pdf_passive_voice P r
          (pdf_tense_analysis P r (pdf_readability P r (pdf_text_statistics P r
            (pdf_input_text P (text' s) (pdf_date P (pdf_title
               \<lparr>doc = new_jsPDF, yPos = 20\<rparr>)))))))))"
    by (intro kept_pdf_parts_of_speech kept_pdf_word_frequency kept_pdf_passive_voice
          kept_pdf_tense_analysis kept_pdf_readability kept_pdf_text_statistics
          kept_pdf_input_text kept_header one)
  then have a: "\<exists>d. handleDownloadPDF P s = Inr d \<and> titles_kept (paged 1 (content d))"
    using r by (simp add: handleDownloadPDF_def Let_def save_def kept_def)
  have b: "yPos (addSection P title l) \<le> 250 + 5 + 7 + 2" if "title \<in> set section_titles" for title
    using addSection_one_line [of P title l] one that by (simp add: titles_on_one_line_def)
  from a b show ?thesis by blast
qed

subsection \<open>The example, line by line\<close>

text \<open>The document of the example, with the position of every line: the cursor passes
  270 after the second line of the last section, and the third starts a second page.\<close>

lemma ex_header:
  "pdf_date example_platform (pdf_title \<lparr>doc = new_jsPDF, yPos = 20\<rparr>) =
     \<lparr>doc = \<lparr>activeFontSize = 10, activeBold = False,
              content = [Text 20 True ''Text Analysis Report'' 20 20,
                         Text 10 False ''Generated: 11/3/2026, 9:30:00 AM'' 20 35],
              saved = None\<rparr>, yPos = 50\<rparr>"
  by (simp add: pdf_date_def pdf_title_def Let_def new_jsPDF_def doc_text_def setFont_def
        setFontSize_def margin_def example_platform_def)

lemma ex_addText:
  "addText example_platform inp fontSize isBold l =
     addText_line inp (l\<lparr>doc := (doc l)\<lparr>activeFontSize := fontSize, activeBold := isBold\<rparr>\<rparr>)"
  by (simp add: addText_def Let_def example_platform_def setFont_def setFontSize_def)

lemma ex_line_low:
  "y \<le> 270 \<Longrightarrow>
   addText_line line \<lparr>doc = \<lparr>activeFontSize = n, activeBold = b, content = ops, saved = sv\<rparr>, yPos = y\<rparr> =
     \<lparr>doc = \<lparr>activeFontSize = n, activeBold = b, content = ops @ [Text n b line 20 y], saved = sv\<rparr>,
      yPos = y + 7\<rparr>"
  by (simp add: addText_line_def Let_def doc_text_def margin_def lineHeight_def)

lemma ex_line_high:
  "270 < y \<Longrightarrow>
   addText_line line \<lparr>doc = \<lparr>activeFontSize = n, activeBold = b, content = ops, saved = sv\<rparr>, yPos = y\<rparr> =
     \<lparr>doc = \<lparr>activeFontSize = n, activeBold = b,
              content = ops @ [AddPage, Text n b line 20 20], saved = sv\<rparr>,
      yPos = 27\<rparr>"
  by (simp add: addText_line_def Let_def doc_text_def addPage_def margin_def lineHeight_def)

lemma ex_section_low:
  "y \<le> 250 \<Longrightarrow>
   addSection example_platform title
     \<lparr>doc = \<lparr>activeFontSize = n, activeBold = b, content = ops, saved = sv\<rparr>, yPos = y\<rparr> =
     \<lparr>doc = \<lparr>activeFontSize = 14, activeBold = True,
              content = ops @ [Text 14 True title 20 (y + 5)], saved = sv\<rparr>,
      yPos = y + 14\<rparr>"
  by (simp add: addSection_def Let_def ex_addText ex_line_low)

lemma ex_toString: "toString example_platform = nat_to_string"
  by (simp add: example_platform_def)

lemma ex_result:
  "result example_app = Some example_result"
  "text' example_app = ''The cat was chased by the dog.''"
  by (simp_all add: example_app_def initial_def)

lemma ex_export:
  "handleDownloadPDF example_platform example_app =
     Inr \<lparr>activeFontSize = 12, activeBold = False,
        content =
          [Text 20 True ''Text Analysis Report'' 20 20,
           Text 10 False ''Generated: 11/3/2026, 9:30:00 AM'' 20 35,
           Text 14 True ''INPUT TEXT'' 20 55,
           Text 11 False ''The cat was chased by the dog.'' 20 64,
           Text 14 True ''TEXT STATISTICS'' 20 76,
           Text 12 False ''Words: 7'' 20 85,
           Text 12 False ''Sentences: 1'' 20 92,
           Text 12 False ''Average Words per Sentence: 7'' 20 99,
           Text 12 False ''Average Word Length: 3'' 20 106,
           Text 12 False ''Characters: 30'' 20 113,
           Text 14 True ''READABILITY SCORE'' 20 125,
           Text 12 False ''Flesch-Kincaid Grade Level: 2'' 20 134,
           Text 12 False ''Reading Level: Elementary'' 20 141,
           Text 12 False ''Description: Very easy to read'' 20 148,
           Text 14 True ''TENSE ANALYSIS'' 20 160,
           Text 12 False ''Past Tense: was, chased'' 20 169,
           Text 12 False ''Present Tense: None'' 20 176,
           Text 12 False ''Future Tense: None'' 20 183,
           Text 14 True ''PASSIVE VOICE DETECTION'' 20 195,
           Text 12 False ''Found 1 sentence(s) with passive voice:'' 20 204,
           Text 12 False ''1. The cat was chased by the dog.'' 20 211,
           Text 14 True ''WORD FREQUENCY (TOP 10)'' 20 223,
           Text 12 False ''1. the: 2'' 20 232,
           Text 12 False ''2. cat: 1'' 20 239,
           Text 14 True ''PARTS OF SPEECH'' 20 251,
           Text 12 False ''Nouns (2): cat, dog'' 20 260,
           Text 12 False ''Verbs (1): chased'' 20 267, AddPage,
           Text 12 False ''Prepositions (1): by'' 20 20],
        saved = Some ''text-analysis-report.pdf''\<rparr>"
  apply (simp only: handleDownloadPDF_def Let_def ex_result option.case)
  apply (simp only: ex_header pdf_input_text_def)
  apply (simp add: example_result_def pdf_text_statistics_def pdf_readability_def
        pdf_tense_analysis_def pdf_passive_voice_def pdf_word_frequency_def
        pdf_parts_of_speech_def has_words_def pos_line_def save_def Let_def ex_section_low
        ex_addText ex_line_low ex_line_high ex_toString nat_to_string.simps digit_def)
  done

theorem title_stays_with_its_body_witness:
  "result example_app = Some example_result \<and> titles_on_one_line example_platform \<and>
   (\<exists>d. handleDownloadPDF example_platform example_app = Inr d \<and>
        titles_kept (paged 1 (content d)) \<and>
        page_breaks (content d) = 1) \<and>
   yPos (addSection example_platform ''PARTS OF SPEECH'' \<lparr>doc = new_jsPDF, yPos = 250\<rparr>) = 264"
proof -
  have r: "result example_app = Some example_result"
    by (simp add: example_app_def)
  have one: "titles_on_one_line example_platform"
    by (simp add: titles_on_one_line_def example_platform_def)
  have y: "yPos (addSection example_platform ''PARTS OF SPEECH'' \<lparr>doc = new_jsPDF, yPos = 250\<rparr>) = 264"
    by (simp add: addSection_def addText_def Let_def example_platform_def setFont_def
          setFontSize_def addText_line_def doc_text_def lineHeight_def)
  have p: "page_breaks (content d) = 1"
    if "handleDownloadPDF example_platform example_app = Inr d" for d
    using that by (auto simp add: ex_export page_breaks_def)
  from title_stays_with_its_body [OF r one] r one y p show ?thesis
    by blast
qed

end
